theory Spec2Isabelle
  imports Main "HOL-Library.Word" "HOL-Library.Sublist"
begin

section \<open>Python values\<close>

text \<open>
  The handler of \<^verbatim>\<open>lambda/index.py\<close> receives an event that the platform has decoded
  from JSON, and every other value it touches comes from \<^verbatim>\<open>json.loads\<close>. Such a
  value is \<^verbatim>\<open>None\<close>, a \<^verbatim>\<open>bool\<close>, an \<^verbatim>\<open>int\<close>, a \<^verbatim>\<open>float\<close>, a \<^verbatim>\<open>str\<close>,
  a \<^verbatim>\<open>list\<close> or a \<^verbatim>\<open>dict\<close> with \<^verbatim>\<open>str\<close> keys.

  A \<^verbatim>\<open>float\<close> is held as its IEEE 754 binary64 bit pattern and a \<^verbatim>\<open>dict\<close> as an
  association list in insertion order, of which a lookup takes the first entry of a key.
  A \<^verbatim>\<open>str\<close> is held as the bytes that \<^verbatim>\<open>encode('utf-8', 'surrogatepass')\<close> gives: its
  UTF-8 encoding, in which a lone surrogate (\<^verbatim>\<open>U+D800\<close> to \<^verbatim>\<open>U+DFFF\<close>, which a JSON
  text can hold as \<^verbatim>\<open>\ud800\<close>) is the three bytes \<^verbatim>\<open>ED\<close>, \<^verbatim>\<open>A0\<close> to \<^verbatim>\<open>BF\<close>, \<^verbatim>\<open>80\<close> to
  \<^verbatim>\<open>BF\<close>.
\<close>

datatype pyval =
    PNone
  | PBool bool
  | PInt int
  | PFloat "64 word"
  | PStr string
  | PList "pyval list"
  | PDict "(string \<times> pyval) list"

text \<open>
  Exceptions are values. \<open>ValueError\<close> and \<open>Exception\<close> are the two classes the handler
  raises itself; the others are raised by the interpreter and the libraries under it.
  \<open>OtherError\<close> is any other subclass of \<^verbatim>\<open>Exception\<close>; \<open>NonException\<close> is a
  \<^verbatim>\<open>BaseException\<close> that is no \<^verbatim>\<open>Exception\<close> (\<^verbatim>\<open>KeyboardInterrupt\<close>, \<^verbatim>\<open>SystemExit\<close>), which
  \<^verbatim>\<open>except Exception\<close> does not catch. Each carries the text of \<^verbatim>\<open>str(error)\<close>, except
  \<open>KeyError\<close>, which carries the key.
\<close>

datatype py_exception =
    ValueError string
  | Exception string
  | KeyError string
  | TypeError string
  | AttributeError string
  | JSONDecodeError string
  | UnicodeDecodeError string
  | UnicodeEncodeError string
  | OtherError string
  | NonException string

fun is_Exception :: "py_exception \<Rightarrow> bool" where
  "is_Exception (NonException m) = False"
| "is_Exception e = True"

definition apostrophe :: string where
  "apostrophe = [CHR 0x27]"

text \<open>\<^verbatim>\<open>repr\<close> of a \<^verbatim>\<open>str\<close> of letters: the text between two apostrophes.\<close>

definition quoted :: "string \<Rightarrow> string" where
  "quoted s = apostrophe @ s @ apostrophe"

text \<open>\<^verbatim>\<open>str(error)\<close>: the message, and for a \<^verbatim>\<open>KeyError\<close> the \<^verbatim>\<open>repr\<close> of the key.\<close>

fun str_exception :: "py_exception \<Rightarrow> string" where
  "str_exception (ValueError m) = m"
| "str_exception (Exception m) = m"
| "str_exception (KeyError k) = quoted k"
| "str_exception (TypeError m) = m"
| "str_exception (AttributeError m) = m"
| "str_exception (JSONDecodeError m) = m"
| "str_exception (UnicodeDecodeError m) = m"
| "str_exception (UnicodeEncodeError m) = m"
| "str_exception (OtherError m) = m"
| "str_exception (NonException m) = m"

fun type_name :: "pyval \<Rightarrow> string" where
  "type_name PNone = ''NoneType''"
| "type_name (PBool b) = ''bool''"
| "type_name (PInt i) = ''int''"
| "type_name (PFloat x) = ''float''"
| "type_name (PStr s) = ''str''"
| "type_name (PList xs) = ''list''"
| "type_name (PDict kvs) = ''dict''"

text \<open>
  Truth value of an object, as \<^verbatim>\<open>not x\<close> and \<^verbatim>\<open>x or y\<close> test it. A float is false
  when it is \<^verbatim>\<open>0.0\<close> or \<^verbatim>\<open>-0.0\<close>.
\<close>

fun truthy :: "pyval \<Rightarrow> bool" where
  "truthy PNone = False"
| "truthy (PBool b) = b"
| "truthy (PInt i) = (i \<noteq> 0)"
| "truthy (PFloat x) = (x \<noteq> 0 \<and> x \<noteq> 0x8000000000000000)"
| "truthy (PStr s) = (s \<noteq> [])"
| "truthy (PList xs) = (xs \<noteq> [])"
| "truthy (PDict kvs) = (kvs \<noteq> [])"

text \<open>
  \<^verbatim>\<open>k in v\<close> for a \<^verbatim>\<open>str\<close> \<open>k\<close>: key membership in a dict, substring test in a str,
  element test in a list, \<^verbatim>\<open>TypeError\<close> otherwise.
\<close>

fun contains :: "string \<Rightarrow> pyval \<Rightarrow> py_exception + bool" where
  "contains k (PDict kvs) = Inr (map_of kvs k \<noteq> None)"
| "contains k (PStr s) = Inr (sublist k s)"
| "contains k (PList xs) = Inr (PStr k \<in> set xs)"
| "contains k v =
     Inl (TypeError (''argument of type '' @ quoted (type_name v) @ '' is not iterable''))"

text \<open>\<^verbatim>\<open>v[k]\<close> for a \<^verbatim>\<open>str\<close> \<open>k\<close>.\<close>

fun subscript :: "pyval \<Rightarrow> string \<Rightarrow> py_exception + pyval" where
  "subscript (PDict kvs) k =
     (case map_of kvs k of None \<Rightarrow> Inl (KeyError k) | Some x \<Rightarrow> Inr x)"
| "subscript (PStr s) k =
     Inl (TypeError (''string indices must be integers, not '' @ quoted ''str''))"
| "subscript (PList xs) k =
     Inl (TypeError ''list indices must be integers or slices, not str'')"
| "subscript v k =
     Inl (TypeError (quoted (type_name v) @ '' object is not subscriptable''))"

definition no_attribute :: "pyval \<Rightarrow> string \<Rightarrow> py_exception" where
  "no_attribute v name =
     AttributeError (quoted (type_name v) @ '' object has no attribute '' @ quoted name)"

text \<open>\<^verbatim>\<open>v.get(k, d)\<close>: only a dict has the method.\<close>

fun get :: "pyval \<Rightarrow> string \<Rightarrow> pyval \<Rightarrow> py_exception + pyval" where
  "get (PDict kvs) k d = Inr (case map_of kvs k of None \<Rightarrow> d | Some x \<Rightarrow> x)"
| "get v k d = Inl (no_attribute v ''get'')"

text \<open>\<^verbatim>\<open>v.copy()\<close>: lists and dicts have the method.\<close>

fun copy :: "pyval \<Rightarrow> py_exception + pyval" where
  "copy (PList xs) = Inr (PList xs)"
| "copy (PDict kvs) = Inr (PDict kvs)"
| "copy v = Inl (no_attribute v ''copy'')"

text \<open>\<^verbatim>\<open>v.append(x)\<close>, returning the list after the call: only a list has the method.\<close>

fun append_item :: "pyval \<Rightarrow> pyval \<Rightarrow> py_exception + pyval" where
  "append_item (PList xs) x = Inr (PList (xs @ [x]))"
| "append_item v x = Inl (no_attribute v ''append'')"

text \<open>\<^verbatim>\<open>str(n)\<close> of an int, as an f-string formats it.\<close>

fun digits :: "nat \<Rightarrow> string" where
  "digits n =
     (if n < 10 then [''0123456789'' ! n]
      else digits (n div 10) @ [''0123456789'' ! (n mod 10)])"

declare digits.simps [simp del]

definition str_int :: "int \<Rightarrow> string" where
  "str_int i = (if i < 0 then CHR ''-'' # digits (nat (- i)) else digits (nat i))"

section \<open>Standard output\<close>

text \<open>
  \<^verbatim>\<open>sys.stdout\<close> encodes what is written to it as UTF-8 and raises
  \<^verbatim>\<open>UnicodeEncodeError\<close> on a text that holds a lone surrogate. \<open>surrogate_start c d\<close>:
  the bytes \<open>c\<close>, \<open>d\<close> begin the three bytes of a surrogate.
\<close>

definition is_ascii :: "char \<Rightarrow> bool" where
  "is_ascii c = (\<not> digit7 c)"

definition surrogate_start :: "char \<Rightarrow> char \<Rightarrow> bool" where
  "surrogate_start c d = (c = CHR 0xED \<and> digit7 d \<and> \<not> digit6 d \<and> digit5 d)"

fun has_surrogate :: "string \<Rightarrow> bool" where
  "has_surrogate (c # d # cs) = (surrogate_start c d \<or> has_surrogate (d # cs))"
| "has_surrogate cs = False"

text \<open>
  The text of the \<^verbatim>\<open>UnicodeEncodeError\<close>. \<open>surrogate_index\<close> is the position of the first
  surrogate, counted in characters: every byte that is no continuation byte (\<^verbatim>\<open>80\<close> to
  \<^verbatim>\<open>BF\<close>) begins a character. \<open>surrogate_run\<close> counts the surrogates that follow each
  other from there, \<open>surrogate_value\<close> is the code point of the first.
\<close>

definition continuation :: "char \<Rightarrow> bool" where
  "continuation c = (digit7 c \<and> \<not> digit6 c)"

fun surrogate_index :: "string \<Rightarrow> nat" where
  "surrogate_index (c # d # cs) =
     (if surrogate_start c d then 0
      else (if continuation c then 0 else 1) + surrogate_index (d # cs))"
| "surrogate_index cs = 0"

fun from_surrogate :: "string \<Rightarrow> string" where
  "from_surrogate (c # d # cs) =
     (if surrogate_start c d then c # d # cs else from_surrogate (d # cs))"
| "from_surrogate cs = []"

fun surrogate_run :: "string \<Rightarrow> nat" where
  "surrogate_run (c # d # e # cs) =
     (if surrogate_start c d then Suc (surrogate_run cs) else 0)"
| "surrogate_run cs = 0"

fun surrogate_value :: "string \<Rightarrow> nat" where
  "surrogate_value (c # d # e # cs) =
     0xD000 + (of_char d - 0x80) * 64 + (of_char e - 0x80)"
| "surrogate_value cs = 0"

definition hex4 :: "nat \<Rightarrow> string" where
  "hex4 n =
     [''0123456789abcdef'' ! (n div 4096 mod 16), ''0123456789abcdef'' ! (n div 256 mod 16),
      ''0123456789abcdef'' ! (n div 16 mod 16), ''0123456789abcdef'' ! (n mod 16)]"

definition cannot_encode :: "string \<Rightarrow> string" where
  "cannot_encode s =
     quoted ''utf-8'' @ '' codec can't encode ''
     @ (if surrogate_run (from_surrogate s) \<le> 1
        then ''character '' @ quoted (CHR 0x5C # CHR ''u'' # hex4 (surrogate_value (from_surrogate s)))
             @ '' in position '' @ digits (surrogate_index s)
        else ''characters in position '' @ digits (surrogate_index s) @ ''-''
             @ digits (surrogate_index s + surrogate_run (from_surrogate s) - 1))
     @ '': surrogates not allowed''"

section \<open>Steps\<close>

text \<open>
  A step of the handler gives a result or raises, and writes to standard output: the
  pair of the outcome and of the texts written, in order. \<open>and_then\<close> runs a second
  step after a first that has not raised.
\<close>

type_synonym 'a step = "(py_exception + 'a) \<times> string list"

definition lift :: "py_exception + 'a \<Rightarrow> 'a step" where
  "lift r = (r, [])"

definition and_then :: "'a step \<Rightarrow> ('a \<Rightarrow> 'b step) \<Rightarrow> 'b step" where
  "and_then m f =
     (case m of
        (Inl e, written) \<Rightarrow> (Inl e, written)
      | (Inr x, written) \<Rightarrow> (case f x of (r, written') \<Rightarrow> (r, written @ written')))"

text \<open>\<^verbatim>\<open>sys.stdout.write(s)\<close>.\<close>

definition stdout_write :: "string \<Rightarrow> unit step" where
  "stdout_write s =
     (if has_surrogate s then (Inl (UnicodeEncodeError (cannot_encode s)), [])
      else (Inr (), [s]))"

fun write_all :: "string list \<Rightarrow> unit step" where
  "write_all [] = lift (Inr ())"
| "write_all (s # ss) = and_then (stdout_write s) (\<lambda>written. write_all ss)"

text \<open>
  \<^verbatim>\<open>print(a, b, ...)\<close> of strs: it writes each argument, a space between two of them and
  a newline at the end, one \<^verbatim>\<open>write\<close> for each.
\<close>

fun print_pieces :: "string list \<Rightarrow> string list" where
  "print_pieces [] = [[CHR 0x0A]]"
| "print_pieces [a] = [a, [CHR 0x0A]]"
| "print_pieces (a # b # rest) = a # '' '' # print_pieces (b # rest)"

definition py_print :: "string list \<Rightarrow> unit step" where
  "py_print args = write_all (print_pieces args)"

section \<open>The world outside the handler\<close>

text \<open>A request as \<^verbatim>\<open>urllib.request.Request\<close> is given it; \<open>data\<close> is the payload.\<close>

record request =
  full_url :: string
  data :: string
  request_headers :: "(string \<times> string) list"
  http_method :: string

text \<open>
  What \<^verbatim>\<open>urllib.request.urlopen\<close> does with a request:
  \<^item> \<open>Returned code content\<close>: it returns a response with \<^verbatim>\<open>getcode() = code\<close>, of which
    \<^verbatim>\<open>read()\<close> gives the bytes \<open>content\<close> or raises;
  \<^item> \<open>RaisedHTTPError code reason readable content\<close>: it raises \<^verbatim>\<open>HTTPError\<close> \<open>e\<close> with
    \<^verbatim>\<open>e.code\<close>, \<^verbatim>\<open>e.reason\<close> as formatted, \<^verbatim>\<open>e.readable()\<close> and what \<^verbatim>\<open>e.read()\<close> does;
  \<^item> \<open>RaisedURLError reason\<close>: it raises a \<^verbatim>\<open>URLError\<close> that is no \<^verbatim>\<open>HTTPError\<close>;
  \<^item> \<open>Raised e\<close>: building or opening the request raises anything else, which neither
    inner \<^verbatim>\<open>except\<close> clause catches.
\<close>

datatype urlopen_result =
    Returned int "py_exception + string"
  | RaisedHTTPError int string bool "py_exception + string"
  | RaisedURLError string
  | Raised py_exception

text \<open>
  The library functions and the process environment the handler uses, as parameters:
  \<^verbatim>\<open>os.environ\<close>, \<^verbatim>\<open>json.loads\<close> on a str, \<^verbatim>\<open>json.dumps\<close> (total on values decoded
  from JSON), \<^verbatim>\<open>bytes.decode('utf-8')\<close>, \<^verbatim>\<open>urllib.request.urlopen\<close>, and \<^verbatim>\<open>repr\<close> of a
  value that is no str.
\<close>

record runtime =
  environ :: "string \<rightharpoonup> string"
  json_loads :: "string \<Rightarrow> py_exception + pyval"
  json_dumps :: "pyval \<Rightarrow> string"
  decode_utf8 :: "string \<Rightarrow> py_exception + string"
  urlopen :: "request \<Rightarrow> urlopen_result"
  repr :: "pyval \<Rightarrow> string"

text \<open>
  What lasts from one invocation to the next: the module-level variable of line 19 and
  what has been written to standard output.
\<close>

record world =
  FASTAPI_ENDPOINT_URL :: "string option"
  stdout :: "string list"

text \<open>
  Line 19, run once when the module is loaded:
  \<^verbatim>\<open>FASTAPI_ENDPOINT_URL = os.environ.get("FASTAPI_ENDPOINT_URL")\<close>.
\<close>

definition module_loaded :: "'a runtime_scheme \<Rightarrow> world" where
  "module_loaded rt =
     \<lparr>FASTAPI_ENDPOINT_URL = environ rt ''FASTAPI_ENDPOINT_URL'', stdout = []\<rparr>"

text \<open>\<^verbatim>\<open>json.loads(v)\<close> of any object: a \<^verbatim>\<open>TypeError\<close> unless \<open>v\<close> is a str.\<close>

fun loads :: "'a runtime_scheme \<Rightarrow> pyval \<Rightarrow> py_exception + pyval" where
  "loads rt (PStr s) = json_loads rt s"
| "loads rt v =
     Inl (TypeError (''the JSON object must be str, bytes or bytearray, not '' @ type_name v))"

text \<open>\<^verbatim>\<open>str(v)\<close>, which \<^verbatim>\<open>print\<close> and an f-string apply: a str is itself.\<close>

fun py_str :: "'a runtime_scheme \<Rightarrow> pyval \<Rightarrow> string" where
  "py_str rt (PStr s) = s"
| "py_str rt v = repr rt v"

section \<open>The handler\<close>

text \<open>
  The handler is translated block by block, each block a step. The parameter
  \<open>context\<close> of the handler is not used.

  Lines 41 to 44: the claims of the authenticated user, read for a \<^verbatim>\<open>print\<close>. The result
  is \<^verbatim>\<open>user_info\<close>; \<open>shown\<close> is the value that the f-string formats.
\<close>

definition read_user_info :: "'a runtime_scheme \<Rightarrow> pyval \<Rightarrow> pyval step" where
  "read_user_info rt event =
     and_then (lift (contains ''requestContext'' event)) (\<lambda>has_context.
     and_then (if has_context
               then and_then (lift (subscript event ''requestContext'')) (\<lambda>request_context.
                    lift (contains ''authorizer'' request_context))
               else lift (Inr False)) (\<lambda>has_authorizer.
     if has_authorizer then
       and_then (lift (subscript event ''requestContext'')) (\<lambda>request_context.
       and_then (lift (subscript request_context ''authorizer'')) (\<lambda>authorizer.
       and_then (lift (subscript authorizer ''claims'')) (\<lambda>user_info.
       and_then (lift (get user_info ''email'' PNone)) (\<lambda>email.
       and_then (if truthy email then lift (Inr email)
                 else lift (get user_info ''cognito:username'' PNone)) (\<lambda>shown.
       and_then (py_print [''Authenticated user: '' @ py_str rt shown]) (\<lambda>written.
       lift (Inr user_info)))))))
     else lift (Inr PNone)))"

text \<open>Lines 47 to 49: \<open>(message, conversation_history)\<close>.\<close>

definition parse_body :: "'a runtime_scheme \<Rightarrow> pyval \<Rightarrow> py_exception + pyval \<times> pyval" where
  "parse_body rt event =
     (case subscript event ''body'' of Inl e \<Rightarrow> Inl e | Inr raw \<Rightarrow>
     (case loads rt raw of Inl e \<Rightarrow> Inl e | Inr body \<Rightarrow>
     (case subscript body ''message'' of Inl e \<Rightarrow> Inl e | Inr message \<Rightarrow>
     (case get body ''conversationHistory'' (PList []) of Inl e \<Rightarrow> Inl e
      | Inr conversation_history \<Rightarrow> Inr (message, conversation_history)))))"

text \<open>Lines 58 to 61 and 68 to 73: the data and the request sent to the endpoint.\<close>

definition request_data :: "pyval \<Rightarrow> pyval \<Rightarrow> pyval" where
  "request_data message conversation_history =
     PDict [(''prompt'', message), (''conversationHistory'', conversation_history)]"

definition fastapi_request :: "string \<Rightarrow> string \<Rightarrow> request" where
  "fastapi_request url post_data =
     \<lparr>full_url = url,
      data = post_data,
      request_headers = [(''Content-Type'', ''application/json'')],
      http_method = ''POST''\<rparr>"

text \<open>
  \<^verbatim>\<open>s.encode('utf-8')\<close>: the bytes of a str are the str as it is held, and a str that
  holds a lone surrogate has none.
\<close>

definition encode_utf8 :: "string \<Rightarrow> py_exception + string" where
  "encode_utf8 s =
     (if has_surrogate s then Inl (UnicodeEncodeError (cannot_encode s)) else Inr s)"

text \<open>
  Lines 78 to 92, the branch of status 200: \<open>(assistant_response, messages)\<close>.
  \<^verbatim>\<open>updated_history\<close> is computed and not used.
\<close>

definition read_response ::
  "'a runtime_scheme \<Rightarrow> pyval \<Rightarrow> pyval \<Rightarrow> py_exception + string \<Rightarrow> (pyval \<times> pyval) step"
where
  "read_response rt message conversation_history content =
     and_then (lift content) (\<lambda>raw.
     and_then (lift (decode_utf8 rt raw)) (\<lambda>response_body.
     and_then (py_print [''Received response from FastAPI: '' @ response_body]) (\<lambda>written.
     and_then (lift (json_loads rt response_body)) (\<lambda>api_response.
     and_then (lift (get api_response ''generated_text'' PNone)) (\<lambda>assistant_response.
     and_then (lift (get api_response ''conversationHistory'' conversation_history))
       (\<lambda>updated_history.
     if \<not> truthy assistant_response
     then lift (Inl (Exception ''No generated_text content received from FastAPI endpoint.''))
     else
       and_then (lift (copy conversation_history)) (\<lambda>messages.
       and_then (lift (append_item messages
           (PDict [(''role'', PStr ''user''), (''content'', message)]))) (\<lambda>messages.
       and_then (lift (append_item messages
           (PDict [(''role'', PStr ''assistant''), (''content'', assistant_response)])))
         (\<lambda>messages.
       lift (Inr (assistant_response, messages)))))))))))"

text \<open>
  Lines 58 to 104: the payload, the two prints, the call, and the two inner \<^verbatim>\<open>except\<close>
  clauses.
\<close>

definition call_fastapi ::
  "'a runtime_scheme \<Rightarrow> string \<Rightarrow> pyval \<Rightarrow> pyval \<Rightarrow> (pyval \<times> pyval) step"
where
  "call_fastapi rt url message conversation_history =
     and_then (lift (encode_utf8 (json_dumps rt (request_data message conversation_history))))
       (\<lambda>post_data.
     and_then (py_print [''Calling FastAPI endpoint: '' @ url]) (\<lambda>written.
     and_then (py_print [''Sending data: ''
         @ json_dumps rt (request_data message conversation_history)]) (\<lambda>written.
     (case urlopen rt (fastapi_request url post_data) of
        Returned code content \<Rightarrow>
          if code = 200 then read_response rt message conversation_history content
          else lift (Inl (Exception
                 (''FastAPI endpoint returned status code '' @ str_int code)))
      | RaisedHTTPError code reason readable content \<Rightarrow>
          and_then (if readable
                    then and_then (lift content) (\<lambda>raw. lift (decode_utf8 rt raw))
                    else lift (Inr ''No details'')) (\<lambda>error_content.
          and_then (py_print [''HTTP Error calling FastAPI: '' @ str_int code @ '' ''
              @ reason @ '' - '' @ error_content]) (\<lambda>written.
          lift (Inl (Exception
            (''Failed to call FastAPI endpoint: '' @ str_int code @ '' '' @ reason)))))
      | RaisedURLError reason \<Rightarrow>
          and_then (py_print [''URL Error calling FastAPI: '' @ reason]) (\<lambda>written.
          lift (Inl (Exception (''Failed to connect to FastAPI endpoint: '' @ reason))))
      | Raised e \<Rightarrow> lift (Inl e)))))"

record envelope =
  statusCode :: int
  headers :: "(string \<times> string) list"
  body :: string

text \<open>
  Lines 27 to 121, the body of the outer \<^verbatim>\<open>try\<close>, given the value of the module-level
  variable. \<^verbatim>\<open>json.dumps\<close> does not raise on values decoded from JSON.
\<close>

definition handler_try :: "'a runtime_scheme \<Rightarrow> string option \<Rightarrow> pyval \<Rightarrow> envelope step" where
  "handler_try rt endpoint_url event =
     (case endpoint_url of
        None \<Rightarrow>
          lift (Inl (ValueError (''Environment variable '' @ quoted ''FASTAPI_ENDPOINT_URL''
                                @ '' is not set.'')))
      | Some url \<Rightarrow>
          if url = [] then
            lift (Inl (ValueError (''Environment variable '' @ quoted ''FASTAPI_ENDPOINT_URL''
                                  @ '' is not set.'')))
          else
            and_then (py_print [''Received event:'', json_dumps rt event]) (\<lambda>written.
            and_then (read_user_info rt event) (\<lambda>user_info.
            and_then (lift (parse_body rt event)) (\<lambda>(message, conversation_history).
            and_then (py_print [''Processing message:'', py_str rt message]) (\<lambda>written.
            and_then (call_fastapi rt url message conversation_history)
              (\<lambda>(assistant_response, messages).
            lift (Inr
              \<lparr>statusCode = 200,
               headers =
                 [(''Content-Type'', ''application/json''),
                  (''Access-Control-Allow-Origin'', ''*''),
                  (''Access-Control-Allow-Headers'',
                   ''Content-Type,X-Amz-Date,Authorization,X-Api-Key,X-Amz-Security-Token''),
                  (''Access-Control-Allow-Methods'', ''OPTIONS,POST'')],
               body = json_dumps rt (PDict
                 [(''success'', PBool True),
                  (''response'', assistant_response),
                  (''conversationHistory'', messages)])\<rparr>)))))))"

text \<open>Lines 124 to 138: the body of \<^verbatim>\<open>except Exception as error\<close>.\<close>

definition handler_except :: "'a runtime_scheme \<Rightarrow> py_exception \<Rightarrow> envelope step" where
  "handler_except rt error =
     and_then (py_print [''Error:'', str_exception error]) (\<lambda>written.
     lift (Inr
       \<lparr>statusCode = 500,
        headers =
          [(''Content-Type'', ''application/json''),
           (''Access-Control-Allow-Origin'', ''*''),
           (''Access-Control-Allow-Headers'',
            ''Content-Type,X-Amz-Date,Authorization,X-Api-Key,X-Amz-Security-Token''),
           (''Access-Control-Allow-Methods'', ''OPTIONS,POST'')],
        body = json_dumps rt (PDict
          [(''success'', PBool False),
           (''error'', PStr (str_exception error))])\<rparr>))"

text \<open>
  \<^verbatim>\<open>try: m except Exception as error: h(error)\<close>. An exception that is no \<^verbatim>\<open>Exception\<close>
  passes through, and so does what the clause itself raises.
\<close>

definition try_except :: "'a step \<Rightarrow> (py_exception \<Rightarrow> 'a step) \<Rightarrow> 'a step" where
  "try_except m h =
     (case m of
        (Inr x, written) \<Rightarrow> (Inr x, written)
      | (Inl e, written) \<Rightarrow>
          if is_Exception e then (case h e of (r, written') \<Rightarrow> (r, written @ written'))
          else (Inl e, written))"

text \<open>
  Lines 25 to 138. The result is the envelope returned or the exception that reaches the
  caller, and the world after the invocation.
\<close>

definition lambda_handler ::
  "'a runtime_scheme \<Rightarrow> pyval \<Rightarrow> 'c \<Rightarrow> world \<Rightarrow> (py_exception + envelope) \<times> world"
where
  "lambda_handler rt event context w =
     (case try_except (handler_try rt (FASTAPI_ENDPOINT_URL w) event) (handler_except rt) of
        (result, written) \<Rightarrow> (result, w\<lparr>stdout := stdout w @ written\<rparr>))"

text \<open>The header mapping of lines 110 to 115, and again of lines 128 to 133.\<close>

definition fixed_headers :: "(string \<times> string) list" where
  "fixed_headers =
     [(''Content-Type'', ''application/json''),
      (''Access-Control-Allow-Origin'', ''*''),
      (''Access-Control-Allow-Headers'',
       ''Content-Type,X-Amz-Date,Authorization,X-Api-Key,X-Amz-Security-Token''),
      (''Access-Control-Allow-Methods'', ''OPTIONS,POST'')]"

section \<open>What the libraries are taken to do\<close>

text \<open>
  An exception is \<open>catchable\<close> when \<^verbatim>\<open>except Exception\<close> catches it and standard output
  can encode its text. A runtime is \<open>conforming\<close> when its libraries do what CPython's
  do: \<^verbatim>\<open>json.dumps\<close> writes ASCII (\<^verbatim>\<open>ensure_ascii\<close>), \<^verbatim>\<open>repr\<close> escapes a surrogate,
  \<^verbatim>\<open>decode('utf-8')\<close> gives no surrogate, and what \<^verbatim>\<open>json.loads\<close>, \<^verbatim>\<open>decode\<close>, \<^verbatim>\<open>urlopen\<close>
  and \<^verbatim>\<open>read\<close> raise is an \<^verbatim>\<open>Exception\<close> whose text, like the reason of an \<^verbatim>\<open>HTTPError\<close>
  or \<^verbatim>\<open>URLError\<close>, holds no surrogate, for a request whose URL holds none. It says
  nothing about events.
\<close>

definition catchable :: "py_exception \<Rightarrow> bool" where
  "catchable e = (is_Exception e \<and> \<not> has_surrogate (str_exception e))"

fun raises_catchable :: "py_exception + 'a \<Rightarrow> bool" where
  "raises_catchable (Inl e) = catchable e"
| "raises_catchable (Inr x) = True"

fun answer_conforming :: "urlopen_result \<Rightarrow> bool" where
  "answer_conforming (Returned code content) = raises_catchable content"
| "answer_conforming (RaisedHTTPError code reason readable content) =
     (\<not> has_surrogate reason \<and> raises_catchable content)"
| "answer_conforming (RaisedURLError reason) = (\<not> has_surrogate reason)"
| "answer_conforming (Raised e) = catchable e"

definition conforming :: "'a runtime_scheme \<Rightarrow> bool" where
  "conforming rt =
     ((\<forall>v. \<not> has_surrogate (json_dumps rt v))
      \<and> (\<forall>v. \<not> has_surrogate (repr rt v))
      \<and> (\<forall>s. raises_catchable (json_loads rt s))
      \<and> (\<forall>bytes. case decode_utf8 rt bytes of
            Inl e \<Rightarrow> catchable e | Inr s \<Rightarrow> \<not> has_surrogate s)
      \<and> (\<forall>req. \<not> has_surrogate (full_url req) \<longrightarrow> answer_conforming (urlopen rt req)))"

text \<open>A step is \<open>safe\<close> when what it raises is catchable.\<close>

definition safe :: "'a step \<Rightarrow> bool" where
  "safe m = raises_catchable (fst m)"

text \<open>A step \<open>fails\<close> when it raises, and what it raises is catchable.\<close>

definition fails :: "'a step \<Rightarrow> bool" where
  "fails m = (case fst m of Inl e \<Rightarrow> catchable e | Inr x \<Rightarrow> False)"

section \<open>An example runtime\<close>

text \<open>
  Concrete library functions for the examples below. They are right on the inputs that
  occur there and make no other promise: \<open>example_loads\<close> knows eight JSON texts,
  \<open>example_dumps\<close> writes values without floats and without characters to escape,
  \<open>example_decode\<close> decodes ASCII bytes and rejects the byte \<^verbatim>\<open>0xff\<close>, \<open>example_repr\<close>
  writes \<^verbatim>\<open>None\<close>, the bools and the ints. The endpoint gives the same answer to every
  request.
\<close>

definition body_hello :: string where
  \<open>body_hello = ''{"message": "hello"}''\<close>

definition body_null_history :: string where
  \<open>body_null_history = ''{"message": "hello", "conversationHistory": null}''\<close>

definition body_text_history :: string where
  \<open>body_text_history = ''{"message": "hello", "conversationHistory": "none"}''\<close>

definition body_there :: string where
  \<open>body_there =
     ''{"message": "there", "conversationHistory": [{"role": "user", "content": "hi"}]}''\<close>

definition empty_object :: string where
  "empty_object = ''{}''"

definition empty_array :: string where
  "empty_array = ''[]''"

definition reply_X :: string where
  \<open>reply_X = ''{"generated_text": "X"}''\<close>

definition reply_ok :: string where
  \<open>reply_ok = ''{"generated_text": "ok", "conversationHistory": []}''\<close>

definition example_loads :: "string \<Rightarrow> py_exception + pyval" where
  "example_loads s =
     (case map_of
        [(body_hello, PDict [(''message'', PStr ''hello'')]),
         (body_null_history,
          PDict [(''message'', PStr ''hello''), (''conversationHistory'', PNone)]),
         (body_text_history,
          PDict [(''message'', PStr ''hello''), (''conversationHistory'', PStr ''none'')]),
         (body_there,
          PDict [(''message'', PStr ''there''),
                 (''conversationHistory'',
                  PList [PDict [(''role'', PStr ''user''), (''content'', PStr ''hi'')]])]),
         (empty_object, PDict []),
         (empty_array, PList []),
         (reply_X, PDict [(''generated_text'', PStr ''X'')]),
         (reply_ok,
          PDict [(''generated_text'', PStr ''ok''), (''conversationHistory'', PList [])])] s
      of None \<Rightarrow> Inl (JSONDecodeError ''Expecting value: line 1 column 1 (char 0)'')
       | Some v \<Rightarrow> Inr v)"

fun example_dumps :: "pyval \<Rightarrow> string"
  and dumps_items :: "pyval list \<Rightarrow> string"
  and dumps_members :: "(string \<times> pyval) list \<Rightarrow> string"
where
  "example_dumps PNone = ''null''"
| "example_dumps (PBool b) = (if b then ''true'' else ''false'')"
| "example_dumps (PInt i) = str_int i"
| "example_dumps (PFloat x) = ''0.0''"
| "example_dumps (PStr s) = [CHR 0x22] @ filter is_ascii s @ [CHR 0x22]"
| "example_dumps (PList xs) = ''['' @ dumps_items xs @ '']''"
| "example_dumps (PDict kvs) = ''{'' @ dumps_members kvs @ ''}''"
| "dumps_items [] = []"
| "dumps_items [x] = example_dumps x"
| "dumps_items (x # y # xs) = example_dumps x @ '', '' @ dumps_items (y # xs)"
| "dumps_members [] = []"
| "dumps_members [(k, v)] =
     [CHR 0x22] @ filter is_ascii k @ [CHR 0x22] @ '': '' @ example_dumps v"
| "dumps_members ((k, v) # kv # kvs) =
     [CHR 0x22] @ filter is_ascii k @ [CHR 0x22] @ '': '' @ example_dumps v @ '', ''
     @ dumps_members (kv # kvs)"

fun example_repr :: "pyval \<Rightarrow> string" where
  "example_repr PNone = ''None''"
| "example_repr (PBool b) = (if b then ''True'' else ''False'')"
| "example_repr (PInt i) = str_int i"
| "example_repr v = ''...''"

definition undecodable :: string where
  "undecodable =
     quoted ''utf-8'' @ '' codec can't decode byte 0xff in position 0: invalid start byte''"

definition example_decode :: "string \<Rightarrow> py_exception + string" where
  "example_decode bytes =
     (if list_all is_ascii bytes then Inr bytes
      else Inl (UnicodeDecodeError undecodable))"

definition example_url :: string where
  "example_url = ''http://localhost:8000/generate''"

definition example_runtime :: "urlopen_result \<Rightarrow> runtime" where
  "example_runtime answer =
     \<lparr>environ = [''FASTAPI_ENDPOINT_URL'' \<mapsto> example_url],
      json_loads = example_loads,
      json_dumps = example_dumps,
      decode_utf8 = example_decode,
      urlopen = (\<lambda>req. answer),
      repr = example_repr\<rparr>"

section \<open>Texts without a surrogate\<close>

lemma no_surrogate_ascii: "list_all is_ascii s \<Longrightarrow> \<not> has_surrogate s"
  by (induction s rule: has_surrogate.induct) (auto simp: surrogate_start_def is_ascii_def)

lemma has_surrogate_ascii_prefix:
  "list_all is_ascii a \<Longrightarrow> has_surrogate (a @ b) = has_surrogate b"
proof (induction a)
  case Nil
  then show ?case by simp
next
  case (Cons c a)
  then have "\<not> surrogate_start c d" for d
    by (auto simp: surrogate_start_def is_ascii_def)
  with Cons show ?case
    by (cases "a @ b") auto
qed

lemma has_surrogate_Cons_ascii:
  "is_ascii c \<Longrightarrow> has_surrogate (c # b) = has_surrogate b"
  using has_surrogate_ascii_prefix [of "[c]" b] by simp

lemma has_surrogate_append_ascii:
  "is_ascii c \<Longrightarrow> has_surrogate (a @ c # b) = (has_surrogate a \<or> has_surrogate b)"
proof (induction a)
  case Nil
  then show ?case
    by (simp add: has_surrogate_Cons_ascii)
next
  case (Cons x a)
  show ?case
  proof (cases a)
    case Nil
    from Cons.prems have "\<not> surrogate_start x c"
      by (auto simp: surrogate_start_def is_ascii_def)
    with Nil Cons.prems show ?thesis
      by (simp add: has_surrogate_Cons_ascii)
  next
    case (Cons y rest)
    with Cons.IH Cons.prems show ?thesis
      by auto
  qed
qed

lemma ascii_nth: "list_all is_ascii xs \<Longrightarrow> k < length xs \<Longrightarrow> is_ascii (xs ! k)"
  by (simp add: list_all_length)

lemma ascii_digits: "list_all is_ascii (digits n)"
proof (induction n rule: digits.induct)
  case (1 n)
  have table: "list_all is_ascii ''0123456789''"
    by (simp add: is_ascii_def)
  have digit: "is_ascii (''0123456789'' ! k)" if "k < 10" for k
    using ascii_nth [OF table, of k] that by simp
  have last: "is_ascii (''0123456789'' ! (n mod 10))"
    by (rule digit) simp
  show ?case
  proof (cases "n < 10")
    case True
    with digit [of n] show ?thesis
      by (subst digits.simps) simp
  next
    case False
    with 1 last show ?thesis
      by (subst digits.simps) simp
  qed
qed

lemma ascii_str_int: "list_all is_ascii (str_int i)"
  by (simp add: str_int_def ascii_digits is_ascii_def)

lemma ascii_hex4: "list_all is_ascii (hex4 n)"
proof -
  have table: "list_all is_ascii ''0123456789abcdef''"
    by (simp add: is_ascii_def)
  have "is_ascii (''0123456789abcdef'' ! (k mod 16))" for k
    using ascii_nth [OF table, of "k mod 16"] by simp
  then show ?thesis
    by (simp add: hex4_def)
qed

lemma ascii_quoted: "list_all is_ascii (quoted s) = list_all is_ascii s"
  by (auto simp: quoted_def apostrophe_def is_ascii_def)

lemma ascii_type_name: "list_all is_ascii (type_name v)"
  by (cases v) (simp_all add: is_ascii_def)

lemma ascii_cannot_encode: "list_all is_ascii (cannot_encode s)"
  by (simp add: cannot_encode_def ascii_quoted ascii_digits ascii_hex4 is_ascii_def)

section \<open>Steps\<close>

lemma fst_lift [simp]: "fst (lift r) = r"
  by (simp add: lift_def)

lemma and_then_lift_Inr [simp]: "and_then (lift (Inr x)) f = f x"
  by (simp add: and_then_def lift_def split: prod.split)

lemma and_then_lift_Inl [simp]: "and_then (lift (Inl e)) f = lift (Inl e)"
  by (simp add: and_then_def lift_def)

lemma fst_and_then:
  "fst (and_then m f) = (case fst m of Inl e \<Rightarrow> Inl e | Inr x \<Rightarrow> fst (f x))"
  by (cases m) (auto simp: and_then_def split: sum.split prod.split)

lemma fst_and_then_Inr: "fst m = Inr x \<Longrightarrow> fst (and_then m f) = fst (f x)"
  by (simp add: fst_and_then)

lemma fst_and_then_Inl: "fst m = Inl e \<Longrightarrow> fst (and_then m f) = Inl e"
  by (simp add: fst_and_then)

lemma fst_stdout_write:
  "fst (stdout_write s) =
     (if has_surrogate s then Inl (UnicodeEncodeError (cannot_encode s)) else Inr ())"
  by (simp add: stdout_write_def)

lemma fst_write_all:
  "list_all (\<lambda>s. \<not> has_surrogate s) ss \<Longrightarrow> fst (write_all ss) = Inr ()"
  by (induction ss) (simp_all add: fst_and_then fst_stdout_write)

lemma no_surrogate_print_pieces:
  "list_all (\<lambda>s. \<not> has_surrogate s) (print_pieces args)
   = list_all (\<lambda>s. \<not> has_surrogate s) args"
  by (induction args rule: print_pieces.induct) (simp_all add: surrogate_start_def)

lemma fst_py_print:
  "list_all (\<lambda>s. \<not> has_surrogate s) args \<Longrightarrow> fst (py_print args) = Inr ()"
  by (simp add: py_print_def fst_write_all no_surrogate_print_pieces)

lemma catchable_UnicodeEncodeError: "catchable (UnicodeEncodeError (cannot_encode s))"
  by (simp add: catchable_def no_surrogate_ascii ascii_cannot_encode)

lemma safe_lift: "safe (lift r) = raises_catchable r"
  by (simp add: safe_def)

lemma safe_and_then:
  assumes "safe m" and "\<And>x. fst m = Inr x \<Longrightarrow> safe (f x)"
  shows "safe (and_then m f)"
  using assms by (cases "fst m") (simp_all add: safe_def fst_and_then)

lemma safe_stdout_write: "safe (stdout_write s)"
  by (simp add: safe_def fst_stdout_write catchable_UnicodeEncodeError)

lemma safe_write_all: "safe (write_all ss)"
  by (induction ss) (simp_all add: safe_lift safe_and_then safe_stdout_write)

lemma safe_py_print: "safe (py_print args)"
  by (simp add: py_print_def safe_write_all)


lemma fst_and_then_eq_Inr:
  "fst (and_then m f) = Inr y \<longleftrightarrow> (\<exists>x. fst m = Inr x \<and> fst (f x) = Inr y)"
  by (cases "fst m") (simp_all add: fst_and_then)

lemma fails_lift: "fails (lift (Inl e)) = catchable e"
  by (simp add: fails_def)

lemma fails_and_then_first: "fails m \<Longrightarrow> fails (and_then m f)"
  by (cases "fst m") (simp_all add: fails_def fst_and_then)

lemma fails_and_then:
  assumes "safe m" and "\<And>x. fst m = Inr x \<Longrightarrow> fails (f x)"
  shows "fails (and_then m f)"
  using assms by (cases "fst m") (simp_all add: safe_def fails_def fst_and_then)

lemma fails_safe: "fails m \<Longrightarrow> safe m"
  by (cases "fst m") (simp_all add: safe_def fails_def)

section \<open>What the operations on values raise\<close>

lemma catchable_ascii: "is_Exception e \<Longrightarrow> list_all is_ascii (str_exception e) \<Longrightarrow> catchable e"
  by (simp add: catchable_def no_surrogate_ascii)

lemma catchable_contains: "raises_catchable (contains k v)"
  by (cases v) (simp_all add: catchable_ascii ascii_quoted ascii_type_name is_ascii_def)

lemma catchable_subscript: "list_all is_ascii k \<Longrightarrow> raises_catchable (subscript v k)"
  by (cases v)
     (simp_all add: catchable_ascii ascii_quoted ascii_type_name is_ascii_def
        split: option.split)

lemma catchable_no_attribute:
  "list_all is_ascii name \<Longrightarrow> catchable (no_attribute v name)"
  by (simp add: no_attribute_def catchable_ascii ascii_quoted ascii_type_name is_ascii_def)

lemma catchable_get: "raises_catchable (get v k d)"
  by (cases v) (simp_all add: catchable_no_attribute is_ascii_def)

lemma catchable_copy: "raises_catchable (copy v)"
  by (cases v) (simp_all add: catchable_no_attribute is_ascii_def)

lemma catchable_append_item: "raises_catchable (append_item v x)"
  by (cases v) (simp_all add: catchable_no_attribute is_ascii_def)

lemma catchable_loads: "conforming rt \<Longrightarrow> raises_catchable (loads rt v)"
  by (cases v) (simp_all add: conforming_def catchable_ascii ascii_type_name is_ascii_def)

lemma raises_catchable_case:
  "raises_catchable r \<Longrightarrow> (\<And>x. r = Inr x \<Longrightarrow> raises_catchable (f x)) \<Longrightarrow>
   raises_catchable (case r of Inl e \<Rightarrow> Inl e | Inr x \<Rightarrow> f x)"
  by (cases r) simp_all

section \<open>What the blocks of the handler raise\<close>

lemma safe_if: "(c \<Longrightarrow> safe a) \<Longrightarrow> (\<not> c \<Longrightarrow> safe b) \<Longrightarrow> safe (if c then a else b)"
  by simp

lemma safe_read_user_info: "safe (read_user_info rt event)"
  unfolding read_user_info_def
  by (intro safe_and_then safe_py_print safe_if)
     (simp_all add: safe_lift catchable_contains catchable_subscript catchable_get is_ascii_def)

lemma catchable_parse_body: "conforming rt \<Longrightarrow> raises_catchable (parse_body rt event)"
  unfolding parse_body_def
  by (intro raises_catchable_case)
     (simp_all add: catchable_subscript catchable_loads catchable_get is_ascii_def)


lemmas text_simps =
  catchable_def has_surrogate_Cons_ascii has_surrogate_ascii_prefix no_surrogate_ascii
  ascii_str_int ascii_quoted ascii_type_name is_ascii_def

lemma catchable_status_text:
  "catchable (Exception (''FastAPI endpoint returned status code '' @ str_int code))"
  by (simp add: text_simps del: has_surrogate.simps)

lemma catchable_call_text:
  "\<not> has_surrogate reason \<Longrightarrow>
   catchable (Exception (''Failed to call FastAPI endpoint: '' @ str_int code @ '' '' @ reason))"
  by (simp add: text_simps del: has_surrogate.simps)

lemma catchable_connect_text:
  "\<not> has_surrogate reason \<Longrightarrow>
   catchable (Exception (''Failed to connect to FastAPI endpoint: '' @ reason))"
  by (simp add: text_simps del: has_surrogate.simps)

lemma catchable_no_text:
  "catchable (Exception ''No generated_text content received from FastAPI endpoint.'')"
  by (simp add: catchable_ascii is_ascii_def)

lemma conforming_decode: "conforming rt \<Longrightarrow> raises_catchable (decode_utf8 rt bytes)"
  by (cases "decode_utf8 rt bytes") (auto simp: conforming_def split: sum.splits)

lemma conforming_decoded:
  "conforming rt \<Longrightarrow> decode_utf8 rt bytes = Inr s \<Longrightarrow> \<not> has_surrogate s"
  by (auto simp: conforming_def split: sum.splits)

lemma conforming_json_loads: "conforming rt \<Longrightarrow> raises_catchable (json_loads rt s)"
  by (simp add: conforming_def)

lemma conforming_json_dumps: "conforming rt \<Longrightarrow> \<not> has_surrogate (json_dumps rt v)"
  by (simp add: conforming_def)

lemma conforming_urlopen:
  "conforming rt \<Longrightarrow> \<not> has_surrogate (full_url req) \<Longrightarrow> answer_conforming (urlopen rt req)"
  by (simp add: conforming_def)

lemma fst_py_print_raises:
  "has_surrogate a \<Longrightarrow> fst (py_print [a]) = Inl (UnicodeEncodeError (cannot_encode a))"
  by (simp add: py_print_def fst_and_then fst_stdout_write)

lemma safe_read_response:
  assumes "conforming rt" and "raises_catchable content"
  shows "safe (read_response rt message conversation_history content)"
  unfolding read_response_def
  by (intro safe_and_then safe_py_print safe_if)
     (simp_all add: safe_lift assms conforming_decode conforming_json_loads catchable_get
        catchable_copy catchable_append_item catchable_no_text)

lemma encode_utf8_eq_Inr: "encode_utf8 s = Inr p \<longleftrightarrow> \<not> has_surrogate s \<and> p = s"
  by (auto simp: encode_utf8_def)

lemma catchable_encode_utf8: "raises_catchable (encode_utf8 s)"
  by (simp add: encode_utf8_def catchable_UnicodeEncodeError)

lemma py_print_Inr: "fst (py_print [a]) = Inr x \<Longrightarrow> \<not> has_surrogate a"
  by (cases "has_surrogate a") (simp_all add: fst_py_print_raises)

lemma safe_answer:
  assumes "conforming rt" and "\<not> has_surrogate url"
  shows "safe (case urlopen rt (fastapi_request url post_data) of
        Returned code content \<Rightarrow>
          if code = 200 then read_response rt message conversation_history content
          else lift (Inl (Exception
                 (''FastAPI endpoint returned status code '' @ str_int code)))
      | RaisedHTTPError code reason readable content \<Rightarrow>
          and_then (if readable
                    then and_then (lift content) (\<lambda>raw. lift (decode_utf8 rt raw))
                    else lift (Inr ''No details'')) (\<lambda>error_content.
          and_then (py_print [''HTTP Error calling FastAPI: '' @ str_int code @ '' ''
              @ reason @ '' - '' @ error_content]) (\<lambda>written.
          lift (Inl (Exception
            (''Failed to call FastAPI endpoint: '' @ str_int code @ '' '' @ reason)))))
      | RaisedURLError reason \<Rightarrow>
          and_then (py_print [''URL Error calling FastAPI: '' @ reason]) (\<lambda>written.
          lift (Inl (Exception (''Failed to connect to FastAPI endpoint: '' @ reason))))
      | Raised e \<Rightarrow> lift (Inl e))"
proof -
  let ?answer = "urlopen rt (fastapi_request url post_data)"
  from assms(2) have answer: "answer_conforming ?answer"
    by (intro conforming_urlopen [OF assms(1)]) (simp add: fastapi_request_def)
  show ?thesis
  proof (cases ?answer)
    case (Returned code content)
    with answer assms show ?thesis
      using catchable_status_text [of code] by (simp add: safe_read_response safe_lift)
  next
    case (RaisedHTTPError code reason readable content)
    with answer have "\<not> has_surrogate reason" "raises_catchable content"
      by simp_all
    then show ?thesis
      unfolding RaisedHTTPError urlopen_result.case
      using catchable_call_text [of reason code]
      by (intro safe_and_then safe_py_print safe_if)
         (simp_all add: safe_lift assms conforming_decode)
  next
    case (RaisedURLError reason)
    with answer have "\<not> has_surrogate reason"
      by simp
    then show ?thesis
      unfolding RaisedURLError urlopen_result.case
      using catchable_connect_text [of reason]
      by (intro safe_and_then safe_py_print) (simp_all add: safe_lift)
  next
    case (Raised e)
    with answer show ?thesis
      by (simp add: safe_lift)
  qed
qed

lemma safe_call_fastapi:
  assumes "conforming rt"
  shows "safe (call_fastapi rt url message conversation_history)"
  unfolding call_fastapi_def
proof (intro safe_and_then safe_py_print)
  show "safe (lift (encode_utf8 (json_dumps rt (request_data message conversation_history))))"
    by (simp add: safe_lift catchable_encode_utf8)
next
  fix post_data x y
  assume "fst (py_print [''Calling FastAPI endpoint: '' @ url]) = Inr x"
  from py_print_Inr [OF this] have "\<not> has_surrogate url"
    by (simp add: text_simps del: has_surrogate.simps)
  from safe_answer [OF assms this]
  show "safe (case urlopen rt (fastapi_request url post_data) of
        Returned code content \<Rightarrow>
          if code = 200 then read_response rt message conversation_history content
          else lift (Inl (Exception
                 (''FastAPI endpoint returned status code '' @ str_int code)))
      | RaisedHTTPError code reason readable content \<Rightarrow>
          and_then (if readable
                    then and_then (lift content) (\<lambda>raw. lift (decode_utf8 rt raw))
                    else lift (Inr ''No details'')) (\<lambda>error_content.
          and_then (py_print [''HTTP Error calling FastAPI: '' @ str_int code @ '' ''
              @ reason @ '' - '' @ error_content]) (\<lambda>written.
          lift (Inl (Exception
            (''Failed to call FastAPI endpoint: '' @ str_int code @ '' '' @ reason)))))
      | RaisedURLError reason \<Rightarrow>
          and_then (py_print [''URL Error calling FastAPI: '' @ reason]) (\<lambda>written.
          lift (Inl (Exception (''Failed to connect to FastAPI endpoint: '' @ reason))))
      | Raised e \<Rightarrow> lift (Inl e))" .
qed

lemma safe_prod_case: "(\<And>a b. safe (f a b)) \<Longrightarrow> safe (case p of (a, b) \<Rightarrow> f a b)"
  by (cases p) simp

lemma safe_handler_try:
  assumes "conforming rt"
  shows "safe (handler_try rt endpoint_url event)"
proof (cases "endpoint_url = None \<or> endpoint_url = Some []")
  case True
  then show ?thesis
    by (auto simp: handler_try_def safe_lift catchable_ascii ascii_quoted is_ascii_def)
next
  case False
  then obtain url where url: "endpoint_url = Some url" "url \<noteq> []"
    by auto
  show ?thesis
    unfolding handler_try_def url option.case
    by (simp only: url(2) if_False)
       (intro safe_and_then safe_py_print safe_read_user_info safe_prod_case
              safe_call_fastapi [OF assms],
        simp_all add: safe_lift catchable_parse_body [OF assms])
qed


section \<open>When the blocks return\<close>

lemma get_eq_Inr:
  "get v k d = Inr x \<longleftrightarrow>
   (\<exists>kvs. v = PDict kvs \<and> x = (case map_of kvs k of None \<Rightarrow> d | Some y \<Rightarrow> y))"
  by (cases v) auto

lemma subscript_eq_Inr:
  "subscript v k = Inr x \<longleftrightarrow> (\<exists>kvs. v = PDict kvs \<and> map_of kvs k = Some x)"
  by (cases v) (auto split: option.splits)

lemma loads_eq_Inr:
  "loads rt v = Inr x \<longleftrightarrow> (\<exists>s. v = PStr s \<and> json_loads rt s = Inr x)"
  by (cases v) auto

lemma copy_append_Inr:
  "copy c = Inr m0 \<Longrightarrow> append_item m0 a = Inr m1 \<Longrightarrow> append_item m1 b = Inr m2 \<Longrightarrow>
   \<exists>h. c = PList h \<and> m2 = PList (h @ [a, b])"
  by (cases c) auto

lemma read_response_Inr:
  assumes "fst (read_response rt message conversation_history content) = Inr (g, messages)"
  shows "\<exists>raw response_body reply history.
           content = Inr raw \<and> decode_utf8 rt raw = Inr response_body \<and>
           json_loads rt response_body = Inr (PDict reply) \<and>
           map_of reply ''generated_text'' = Some g \<and> truthy g \<and>
           conversation_history = PList history \<and>
           messages = PList (history @
             [PDict [(''role'', PStr ''user''), (''content'', message)],
              PDict [(''role'', PStr ''assistant''), (''content'', g)]])"
proof -
  from assms obtain raw response_body api_response assistant_response
    where steps: "content = Inr raw" "decode_utf8 rt raw = Inr response_body"
      "json_loads rt response_body = Inr api_response"
      "get api_response ''generated_text'' PNone = Inr assistant_response"
    and rest: "fst (if \<not> truthy assistant_response
        then lift (Inl (Exception ''No generated_text content received from FastAPI endpoint.''))
        else
          and_then (lift (copy conversation_history)) (\<lambda>messages.
          and_then (lift (append_item messages
              (PDict [(''role'', PStr ''user''), (''content'', message)]))) (\<lambda>messages.
          and_then (lift (append_item messages
              (PDict [(''role'', PStr ''assistant''), (''content'', assistant_response)])))
            (\<lambda>messages.
          lift (Inr (assistant_response, messages)))))) = Inr (g, messages)"
    unfolding read_response_def fst_and_then_eq_Inr fst_lift by blast
  from rest have t: "truthy assistant_response"
    by (simp split: if_splits)
  with rest obtain m0 m1 m2 where ms: "copy conversation_history = Inr m0"
      "append_item m0 (PDict [(''role'', PStr ''user''), (''content'', message)]) = Inr m1"
      "append_item m1 (PDict [(''role'', PStr ''assistant''),
         (''content'', assistant_response)]) = Inr m2"
      "g = assistant_response" "messages = m2"
    by (auto simp: fst_and_then_eq_Inr)
  from copy_append_Inr [OF ms(1-3)] obtain history
    where history: "conversation_history = PList history"
      "m2 = PList (history @
         [PDict [(''role'', PStr ''user''), (''content'', message)],
          PDict [(''role'', PStr ''assistant''), (''content'', assistant_response)]])"
    by blast
  from steps(4) obtain reply where reply: "api_response = PDict reply"
      "assistant_response =
         (case map_of reply ''generated_text'' of None \<Rightarrow> PNone | Some x \<Rightarrow> x)"
    unfolding get_eq_Inr by blast
  from reply(2) t have "map_of reply ''generated_text'' = Some assistant_response"
    by (cases "map_of reply ''generated_text''") auto
  with steps(1-3) t ms(4,5) history reply(1) show ?thesis
    by auto
qed

lemma call_fastapi_Inr:
  assumes "fst (call_fastapi rt url message conversation_history) = Inr r"
  shows "\<exists>content.
           urlopen rt (fastapi_request url
             (json_dumps rt (request_data message conversation_history)))
             = Returned 200 content \<and>
           fst (read_response rt message conversation_history content) = Inr r"
proof -
  let ?data = "json_dumps rt (request_data message conversation_history)"
  from assms have "fst (case urlopen rt (fastapi_request url ?data) of
        Returned code content \<Rightarrow>
          if code = 200 then read_response rt message conversation_history content
          else lift (Inl (Exception
                 (''FastAPI endpoint returned status code '' @ str_int code)))
      | RaisedHTTPError code reason readable content \<Rightarrow>
          and_then (if readable
                    then and_then (lift content) (\<lambda>raw. lift (decode_utf8 rt raw))
                    else lift (Inr ''No details'')) (\<lambda>error_content.
          and_then (py_print [''HTTP Error calling FastAPI: '' @ str_int code @ '' ''
              @ reason @ '' - '' @ error_content]) (\<lambda>written.
          lift (Inl (Exception
            (''Failed to call FastAPI endpoint: '' @ str_int code @ '' '' @ reason)))))
      | RaisedURLError reason \<Rightarrow>
          and_then (py_print [''URL Error calling FastAPI: '' @ reason]) (\<lambda>written.
          lift (Inl (Exception (''Failed to connect to FastAPI endpoint: '' @ reason))))
      | Raised e \<Rightarrow> lift (Inl e)) = Inr r"
    unfolding call_fastapi_def fst_and_then_eq_Inr fst_lift encode_utf8_eq_Inr by auto
  then show ?thesis
    by (cases "urlopen rt (fastapi_request url ?data)")
       (auto simp: fst_and_then_eq_Inr split: if_splits)
qed

lemma handler_try_Inr:
  assumes "fst (handler_try rt endpoint_url event) = Inr env"
  shows "\<exists>url message history raw response_body reply g.
           endpoint_url = Some url \<and> url \<noteq> [] \<and>
           parse_body rt event = Inr (message, PList history) \<and>
           urlopen rt (fastapi_request url
             (json_dumps rt (request_data message (PList history))))
             = Returned 200 (Inr raw) \<and>
           decode_utf8 rt raw = Inr response_body \<and>
           json_loads rt response_body = Inr (PDict reply) \<and>
           map_of reply ''generated_text'' = Some g \<and> truthy g \<and>
           env = \<lparr>statusCode = 200, headers = fixed_headers,
                  body = json_dumps rt (PDict
                    [(''success'', PBool True),
                     (''response'', g),
                     (''conversationHistory'',
                      PList (history @
                        [PDict [(''role'', PStr ''user''), (''content'', message)],
                         PDict [(''role'', PStr ''assistant''), (''content'', g)]]))])\<rparr>"
proof -
  from assms obtain url where url: "endpoint_url = Some url" "url \<noteq> []"
    by (cases endpoint_url) (auto simp: handler_try_def split: if_splits)
  with assms obtain message conversation_history g messages
    where parsed: "parse_body rt event = Inr (message, conversation_history)"
      and called: "fst (call_fastapi rt url message conversation_history) = Inr (g, messages)"
      and env: "env = \<lparr>statusCode = 200, headers = fixed_headers,
                  body = json_dumps rt (PDict
                    [(''success'', PBool True),
                     (''response'', g),
                     (''conversationHistory'', messages)])\<rparr>"
    by (auto simp: handler_try_def fst_and_then_eq_Inr fixed_headers_def)
  from call_fastapi_Inr [OF called] obtain content
    where answer: "urlopen rt (fastapi_request url
          (json_dumps rt (request_data message conversation_history)))
        = Returned 200 content"
      and response: "fst (read_response rt message conversation_history content)
        = Inr (g, messages)"
    by blast
  from read_response_Inr [OF response] url parsed answer env show ?thesis
    by blast
qed

section \<open>The two envelopes\<close>

lemma fst_lambda_handler:
  "fst (lambda_handler rt event ctx w) =
   fst (try_except (handler_try rt (FASTAPI_ENDPOINT_URL w) event) (handler_except rt))"
  by (simp add: lambda_handler_def split: prod.split)

lemma fst_handler_except:
  "\<not> has_surrogate (str_exception error) \<Longrightarrow>
   fst (handler_except rt error) =
     Inr \<lparr>statusCode = 500, headers = fixed_headers,
          body = json_dumps rt (PDict
            [(''success'', PBool False), (''error'', PStr (str_exception error))])\<rparr>"
  by (simp add: handler_except_def fst_and_then fst_py_print fixed_headers_def
        surrogate_start_def)

lemma fst_try_except:
  "fst (try_except m h) =
     (case fst m of Inr x \<Rightarrow> Inr x
      | Inl e \<Rightarrow> if is_Exception e then fst (h e) else Inl e)"
  by (cases m) (auto simp: try_except_def split: sum.split prod.split)

lemma raised_gives_500:
  assumes "fst (handler_try rt (FASTAPI_ENDPOINT_URL w) event) = Inl error"
    and "catchable error"
  shows "fst (lambda_handler rt event ctx w) =
     Inr \<lparr>statusCode = 500, headers = fixed_headers,
          body = json_dumps rt (PDict
            [(''success'', PBool False), (''error'', PStr (str_exception error))])\<rparr>"
  using assms by (simp add: fst_lambda_handler fst_try_except fst_handler_except catchable_def)

lemma returned_gives_200:
  assumes "fst (handler_try rt (FASTAPI_ENDPOINT_URL w) event) = Inr env"
  shows "fst (lambda_handler rt event ctx w) = Inr env"
  using assms by (simp add: fst_lambda_handler fst_try_except)

section \<open>The example runtime is conforming\<close>

lemma is_ascii_Char: "is_ascii (Char b0 b1 b2 b3 b4 b5 b6 b7) = (\<not> b7)"
  by (simp add: is_ascii_def)

lemma ascii_filter: "list_all is_ascii (filter is_ascii s)"
  by (simp add: list_all_iff)

lemma ascii_example_dumps:
  "list_all is_ascii (example_dumps v)"
  "list_all is_ascii (dumps_items xs)"
  "list_all is_ascii (dumps_members kvs)"
  by (induction v and xs and kvs rule: example_dumps_dumps_items_dumps_members.induct)
     (simp_all add: ascii_str_int ascii_filter is_ascii_Char)

lemma ascii_example_repr: "list_all is_ascii (example_repr v)"
  by (cases v) (simp_all add: ascii_str_int is_ascii_Char)

lemma conforming_example:
  "answer_conforming answer \<Longrightarrow> conforming (example_runtime answer)"
  by (auto simp: conforming_def example_runtime_def example_loads_def example_decode_def
        undecodable_def no_surrogate_ascii ascii_example_dumps ascii_example_repr
        catchable_ascii ascii_quoted is_ascii_Char
      split: option.split)

section \<open>Along the handler\<close>

lemma fst_print_then:
  "list_all (\<lambda>s. \<not> has_surrogate s) args \<Longrightarrow> fst (and_then (py_print args) f) = fst (f ())"
  by (simp add: fst_and_then fst_py_print)

lemma handler_try_reaches_call:
  assumes "conforming rt" and "url \<noteq> []"
    and "fst (read_user_info rt event) = Inr user_info"
    and "parse_body rt event = Inr (message, conversation_history)"
    and "\<not> has_surrogate (py_str rt message)"
  shows "fst (handler_try rt (Some url) event) =
     (case fst (call_fastapi rt url message conversation_history) of
        Inl e \<Rightarrow> Inl e
      | Inr (assistant_response, messages) \<Rightarrow>
          Inr \<lparr>statusCode = 200, headers = fixed_headers,
               body = json_dumps rt (PDict
                 [(''success'', PBool True),
                  (''response'', assistant_response),
                  (''conversationHistory'', messages)])\<rparr>)"
proof -
  have "fst (handler_try rt (Some url) event) =
      fst (and_then (call_fastapi rt url message conversation_history)
        (\<lambda>(assistant_response, messages).
        lift (Inr \<lparr>statusCode = 200, headers = fixed_headers,
               body = json_dumps rt (PDict
                 [(''success'', PBool True),
                  (''response'', assistant_response),
                  (''conversationHistory'', messages)])\<rparr>)))"
    using assms
    by (simp add: handler_try_def fst_print_then text_simps conforming_json_dumps
          fst_and_then_Inr fixed_headers_def del: has_surrogate.simps)
  then show ?thesis
    by (simp add: fst_and_then split: sum.split prod.split)
qed

lemma call_fastapi_returned_200:
  assumes "conforming rt" and "\<not> has_surrogate url"
    and "urlopen rt (fastapi_request url
           (json_dumps rt (request_data message conversation_history)))
         = Returned 200 content"
  shows "fst (call_fastapi rt url message conversation_history)
     = fst (read_response rt message conversation_history content)"
  using assms
  by (simp add: call_fastapi_def encode_utf8_def fst_print_then text_simps
        conforming_json_dumps del: has_surrogate.simps)

lemma read_response_ok:
  assumes "conforming rt"
    and "decode_utf8 rt raw = Inr response_body"
    and "json_loads rt response_body = Inr (PDict reply)"
    and "map_of reply ''generated_text'' = Some g" "truthy g"
  shows "fst (read_response rt message (PList history) (Inr raw)) =
     Inr (g, PList (history @
       [PDict [(''role'', PStr ''user''), (''content'', message)],
        PDict [(''role'', PStr ''assistant''), (''content'', g)]]))"
  using assms conforming_decoded [OF assms(1,2)]
  by (simp add: read_response_def fst_print_then text_simps
        del: has_surrogate.simps)

lemma read_response_no_text:
  assumes "conforming rt"
    and "decode_utf8 rt raw = Inr response_body"
    and "json_loads rt response_body = Inr (PDict reply)"
    and "\<not> truthy (case map_of reply ''generated_text'' of None \<Rightarrow> PNone | Some x \<Rightarrow> x)"
  shows "fst (read_response rt message conversation_history (Inr raw)) =
     Inl (Exception ''No generated_text content received from FastAPI endpoint.'')"
  using assms conforming_decoded [OF assms(1,2)]
  by (simp add: read_response_def fst_print_then text_simps
        del: has_surrogate.simps)

lemma read_response_copy_raises:
  assumes "conforming rt"
    and "decode_utf8 rt raw = Inr response_body"
    and "json_loads rt response_body = Inr (PDict reply)"
    and "map_of reply ''generated_text'' = Some g" "truthy g"
    and "copy conversation_history = Inl e"
  shows "fst (read_response rt message conversation_history (Inr raw)) = Inl e"
  using assms conforming_decoded [OF assms(1,2)]
  by (simp add: read_response_def fst_print_then text_simps
        del: has_surrogate.simps)

lemma read_response_get_raises:
  assumes "conforming rt"
    and "decode_utf8 rt raw = Inr response_body"
    and "json_loads rt response_body = Inr api_response"
    and "get api_response ''generated_text'' PNone = Inl e"
  shows "fst (read_response rt message conversation_history (Inr raw)) = Inl e"
  using assms conforming_decoded [OF assms(1,2)]
  by (simp add: read_response_def fst_print_then text_simps
        del: has_surrogate.simps)

lemma parse_body_dict:
  assumes "map_of ev ''body'' = Some (PStr s)" "json_loads rt s = Inr (PDict inbound)"
    and "map_of inbound ''message'' = Some message"
  shows "parse_body rt (PDict ev) =
     Inr (message, case map_of inbound ''conversationHistory'' of None \<Rightarrow> PList [] | Some h \<Rightarrow> h)"
  using assms by (simp add: parse_body_def)

lemma handler_success:
  assumes "conforming rt" and "url \<noteq> []" and "\<not> has_surrogate url"
    and "fst (read_user_info rt event) = Inr user_info"
    and "parse_body rt event = Inr (message, PList history)"
    and "\<not> has_surrogate (py_str rt message)"
    and "urlopen rt (fastapi_request url
           (json_dumps rt (request_data message (PList history))))
         = Returned 200 (Inr raw)"
    and "decode_utf8 rt raw = Inr response_body"
    and "json_loads rt response_body = Inr (PDict reply)"
    and "map_of reply ''generated_text'' = Some g" "truthy g"
  shows "fst (handler_try rt (Some url) event) =
     Inr \<lparr>statusCode = 200, headers = fixed_headers,
          body = json_dumps rt (PDict
            [(''success'', PBool True),
             (''response'', g),
             (''conversationHistory'',
              PList (history @
                [PDict [(''role'', PStr ''user''), (''content'', message)],
                 PDict [(''role'', PStr ''assistant''), (''content'', g)]]))])\<rparr>"
  unfolding handler_try_reaches_call [OF assms(1,2,4,5,6)]
    call_fastapi_returned_200 [OF assms(1,3,7)]
    read_response_ok [OF assms(1,8,9,10,11)]
  by simp

lemma handler_try_user_info_raises:
  assumes "conforming rt" and "url \<noteq> []"
    and "fst (read_user_info rt event) = Inl e"
  shows "fst (handler_try rt (Some url) event) = Inl e"
  using assms
  by (simp add: handler_try_def fst_print_then text_simps conforming_json_dumps
        fst_and_then_Inl del: has_surrogate.simps)

lemma handler_try_parse_fails:
  assumes "parse_body rt event = Inl e" and "catchable e"
  shows "fails (handler_try rt endpoint_url event)"
proof (cases "endpoint_url = None \<or> endpoint_url = Some []")
  case True
  then show ?thesis
    by (auto simp: handler_try_def fails_lift catchable_ascii ascii_quoted is_ascii_Char)
next
  case False
  then obtain url where url: "endpoint_url = Some url" "url \<noteq> []"
    by auto
  show ?thesis
    unfolding handler_try_def url option.case
    by (simp only: url(2) if_False)
       (rule fails_and_then [OF safe_py_print], rule fails_and_then [OF safe_read_user_info],
        rule fails_and_then_first, simp add: assms fails_lift)
qed

lemma fails_gives_500:
  assumes "fails (handler_try rt (FASTAPI_ENDPOINT_URL w) event)"
  shows "\<exists>error. fst (lambda_handler rt event ctx w) =
     Inr \<lparr>statusCode = 500, headers = fixed_headers,
          body = json_dumps rt (PDict
            [(''success'', PBool False), (''error'', PStr (str_exception error))])\<rparr>"
proof -
  from assms obtain error
    where "fst (handler_try rt (FASTAPI_ENDPOINT_URL w) event) = Inl error" "catchable error"
    by (cases "fst (handler_try rt (FASTAPI_ENDPOINT_URL w) event)") (auto simp: fails_def)
  from raised_gives_500 [OF this, where ctx = ctx] show ?thesis ..
qed

section \<open>Failures, kind by kind\<close>

text \<open>
  C5. When the configured endpoint URL is unset, that is, when the environment has no
  value for it or an empty one, every invocation returns the error envelope of status
  500, whatever the event; the error text names the missing environment variable.
\<close>

theorem unset_endpoint_url:
  assumes "FASTAPI_ENDPOINT_URL w = None \<or> FASTAPI_ENDPOINT_URL w = Some []"
  shows "fst (lambda_handler rt event ctx w) =
     Inr \<lparr>statusCode = 500, headers = fixed_headers,
          body = json_dumps rt (PDict
            [(''success'', PBool False),
             (''error'', PStr (''Environment variable '' @ [CHR 0x27]
                              @ ''FASTAPI_ENDPOINT_URL'' @ [CHR 0x27] @ '' is not set.''))])\<rparr>"
proof -
  let ?error = "ValueError (''Environment variable '' @ quoted ''FASTAPI_ENDPOINT_URL''
      @ '' is not set.'')"
  from assms have "fst (handler_try rt (FASTAPI_ENDPOINT_URL w) event) = Inl ?error"
    by (auto simp: handler_try_def)
  moreover have "catchable ?error"
    by (simp add: catchable_ascii ascii_quoted is_ascii_Char)
  ultimately show ?thesis
    using raised_gives_500 [of rt w event ?error ctx]
    by (simp add: quoted_def apostrophe_def)
qed

theorem unset_endpoint_url_witness:
  "FASTAPI_ENDPOINT_URL
     (module_loaded (example_runtime (Returned 200 (Inr reply_X))\<lparr>environ := Map.empty\<rparr>))
     = None
   \<and> fst (lambda_handler (example_runtime (Returned 200 (Inr reply_X))\<lparr>environ := Map.empty\<rparr>)
       (PDict [(''body'', PStr body_hello)]) ()
       (module_loaded (example_runtime (Returned 200 (Inr reply_X))\<lparr>environ := Map.empty\<rparr>)))
     = Inr \<lparr>statusCode = 500, headers = fixed_headers,
        body = example_dumps (PDict
          [(''success'', PBool False),
           (''error'', PStr (''Environment variable '' @ [CHR 0x27]
                            @ ''FASTAPI_ENDPOINT_URL'' @ [CHR 0x27] @ '' is not set.''))])\<rparr>"
proof -
  let ?rt = "example_runtime (Returned 200 (Inr reply_X))\<lparr>environ := Map.empty\<rparr>"
  have unset: "FASTAPI_ENDPOINT_URL (module_loaded ?rt) = None"
    by (simp add: module_loaded_def)
  then have "FASTAPI_ENDPOINT_URL (module_loaded ?rt) = None
      \<or> FASTAPI_ENDPOINT_URL (module_loaded ?rt) = Some []"
    by simp
  from unset_endpoint_url [OF this, of ?rt "PDict [(''body'', PStr body_hello)]" "()"] unset
  show ?thesis
    by (simp add: example_runtime_def)
qed

text \<open>
  C8. When the body of the event parses as a JSON object that has no \<open>message\<close> key,
  the handler returns the error envelope: status 500 and a body whose \<open>success\<close> is
  false.
\<close>

theorem missing_message:
  assumes "map_of ev ''body'' = Some (PStr s)"
    and "json_loads rt s = Inr (PDict inbound)"
    and "map_of inbound ''message'' = None"
  shows "\<exists>error. fst (lambda_handler rt (PDict ev) ctx w) =
     Inr \<lparr>statusCode = 500, headers = fixed_headers,
          body = json_dumps rt (PDict
            [(''success'', PBool False), (''error'', PStr (str_exception error))])\<rparr>"
proof -
  from assms have "parse_body rt (PDict ev) = Inl (KeyError ''message'')"
    by (simp add: parse_body_def)
  moreover have "catchable (KeyError ''message'')"
    by (simp add: catchable_ascii ascii_quoted is_ascii_Char)
  ultimately have "fails (handler_try rt (FASTAPI_ENDPOINT_URL w) (PDict ev))"
    by (rule handler_try_parse_fails)
  then show ?thesis
    by (rule fails_gives_500)
qed

theorem missing_message_witness:
  "json_loads (example_runtime (Returned 200 (Inr reply_X))) empty_object = Inr (PDict [])
   \<and> (\<exists>error. fst (lambda_handler (example_runtime (Returned 200 (Inr reply_X)))
         (PDict [(''body'', PStr empty_object)]) ()
         (module_loaded (example_runtime (Returned 200 (Inr reply_X)))))
       = Inr \<lparr>statusCode = 500, headers = fixed_headers,
          body = example_dumps (PDict
            [(''success'', PBool False), (''error'', PStr (str_exception error))])\<rparr>)"
proof -
  let ?rt = "example_runtime (Returned 200 (Inr reply_X))"
  have parsed: "json_loads ?rt empty_object = Inr (PDict [])"
    by (simp add: example_runtime_def example_loads_def empty_object_def body_hello_def
          body_null_history_def body_text_history_def body_there_def)
  have "map_of [(''body'', PStr empty_object)] ''body'' = Some (PStr empty_object)"
    and "map_of ([] :: (string \<times> pyval) list) ''message'' = None"
    by simp_all
  from missing_message [OF this(1) parsed this(2), of "()" "module_loaded ?rt"] parsed
  show ?thesis
    by (simp add: example_runtime_def)
qed

section \<open>Every invocation returns an envelope\<close>

lemma conforming_gives_envelope:
  assumes "conforming rt"
  shows "(\<exists>g messages. fst (lambda_handler rt event ctx w) =
           Inr \<lparr>statusCode = 200, headers = fixed_headers,
                body = json_dumps rt (PDict
                  [(''success'', PBool True),
                   (''response'', g),
                   (''conversationHistory'', PList messages)])\<rparr>
           \<and> (\<exists>env. fst (handler_try rt (FASTAPI_ENDPOINT_URL w) event) = Inr env))
         \<or> (\<exists>error. fst (lambda_handler rt event ctx w) =
           Inr \<lparr>statusCode = 500, headers = fixed_headers,
                body = json_dumps rt (PDict
                  [(''success'', PBool False), (''error'', PStr error)])\<rparr>
           \<and> (\<exists>e. fst (handler_try rt (FASTAPI_ENDPOINT_URL w) event) = Inl e))"
proof (cases "fst (handler_try rt (FASTAPI_ENDPOINT_URL w) event)")
  case (Inl e)
  with safe_handler_try [OF assms, of "FASTAPI_ENDPOINT_URL w" event] have "catchable e"
    by (simp add: safe_def)
  from raised_gives_500 [OF Inl this, where ctx = ctx] Inl show ?thesis
    by blast
next
  case (Inr env)
  from handler_try_Inr [OF Inr] returned_gives_200 [OF Inr, where ctx = ctx] Inr show ?thesis
    by blast
qed

text \<open>
  C10. The handler is total: in a conforming runtime, whatever the event, the context
  and the state of the process, no exception reaches the caller and the handler
  returns an envelope whose status code is 200 or 500. What the \<^verbatim>\<open>try\<close> body raises is
  an \<^verbatim>\<open>Exception\<close>, so the clause of line 123 catches it, and its text holds no
  surrogate, so the \<^verbatim>\<open>print\<close> of line 124 does not raise in its turn.
\<close>

theorem always_an_envelope:
  assumes "conforming rt"
  shows "\<exists>env. fst (lambda_handler rt event ctx w) = Inr env
           \<and> (statusCode env = 200 \<or> statusCode env = 500)"
  using conforming_gives_envelope [OF assms, of event ctx w] by auto

theorem always_an_envelope_witness:
  "conforming (example_runtime (Returned 200 (Inr reply_X)))
   \<and> (\<exists>env. fst (lambda_handler (example_runtime (Returned 200 (Inr reply_X)))
         (PList [PStr ''requestContext'']) ()
         (module_loaded (example_runtime (Returned 200 (Inr reply_X))))) = Inr env
       \<and> (statusCode env = 200 \<or> statusCode env = 500))"
proof -
  have conf: "conforming (example_runtime (Returned 200 (Inr reply_X)))"
    by (rule conforming_example) simp
  from always_an_envelope [OF conf, of "PList [PStr ''requestContext'']" "()"
      "module_loaded (example_runtime (Returned 200 (Inr reply_X)))"] conf
  show ?thesis
    by blast
qed

section \<open>One shape for every failure\<close>



section \<open>A second invocation\<close>

lemma lambda_handler_world:
  "\<exists>written. snd (lambda_handler rt event ctx w) = w\<lparr>stdout := stdout w @ written\<rparr>"
  by (auto simp: lambda_handler_def split: prod.split)

text \<open>
  C9. The handler is invoked twice on the same event, in the same runtime, so with the
  same libraries and the same answers of the endpoint; the second invocation starts in
  the state of the process that the first has left, and the two contexts may differ.
  Both invocations have the same result, the same envelope byte for byte: the first
  leaves the module-level URL as it found it, and the handler reads nothing of what has
  been written to standard output.
\<close>

theorem second_invocation_same_result:
  assumes "lambda_handler rt event ctx w = (first, w')"
    and "lambda_handler rt event ctx' w' = (second, w'')"
  shows "second = first"
proof -
  from lambda_handler_world [of rt event ctx w] assms(1)
  have "FASTAPI_ENDPOINT_URL w' = FASTAPI_ENDPOINT_URL w"
    by auto
  then have "fst (lambda_handler rt event ctx' w') = fst (lambda_handler rt event ctx w)"
    by (simp add: fst_lambda_handler)
  with assms show ?thesis
    by simp
qed

theorem second_invocation_same_result_witness:
  "fst (lambda_handler (example_runtime (Returned 200 (Inr reply_X)))
     (PDict [(''body'', PStr body_hello)]) ''second''
     (snd (lambda_handler (example_runtime (Returned 200 (Inr reply_X)))
       (PDict [(''body'', PStr body_hello)]) (1 :: nat)
       (module_loaded (example_runtime (Returned 200 (Inr reply_X)))))))
   = fst (lambda_handler (example_runtime (Returned 200 (Inr reply_X)))
     (PDict [(''body'', PStr body_hello)]) (1 :: nat)
     (module_loaded (example_runtime (Returned 200 (Inr reply_X)))))"
  by (rule second_invocation_same_result) (rule prod.collapse [symmetric])+

lemmas example_texts =
  body_hello_def body_null_history_def body_text_history_def body_there_def
  empty_object_def empty_array_def reply_X_def reply_ok_def

lemma example_fields [simp]:
  "json_loads (example_runtime answer) = example_loads"
  "json_dumps (example_runtime answer) = example_dumps"
  "decode_utf8 (example_runtime answer) = example_decode"
  "urlopen (example_runtime answer) req = answer"
  "repr (example_runtime answer) = example_repr"
  "FASTAPI_ENDPOINT_URL (module_loaded (example_runtime answer)) = Some example_url"
  by (simp_all add: example_runtime_def module_loaded_def)

lemma example_url_ok: "example_url \<noteq> []" "\<not> has_surrogate example_url"
  by (simp_all add: example_url_def surrogate_start_def)

lemma example_decode_ascii: "list_all is_ascii bytes \<Longrightarrow> example_decode bytes = Inr bytes"
  by (simp add: example_decode_def)

lemma no_user_info:
  "map_of ev ''requestContext'' = None \<Longrightarrow> fst (read_user_info rt (PDict ev)) = Inr PNone"
  by (simp add: read_user_info_def)

section \<open>The reply of the endpoint is relayed\<close>

text \<open>
  C1, amended. The runtime is conforming. The event is a mapping whose body parses as a
  JSON object with a \<open>message\<close> that is a non-empty string without a lone surrogate and
  with a \<open>conversationHistory\<close> that is absent or a list; reading the identity claims
  for the log raises nothing; the endpoint URL is set and holds no lone surrogate; the
  endpoint answers the request with status 200 and a JSON object whose
  \<open>generated_text\<close> is a non-empty string \<open>x\<close>. Then the handler returns the envelope of
  status 200 with the fixed headers, and its body is the JSON object with \<open>success\<close>
  true, \<open>response\<close> \<open>x\<close> and the inbound history followed by the two new turns.
\<close>

theorem reply_relayed:
  assumes "conforming rt"
    and "FASTAPI_ENDPOINT_URL w = Some url" "url \<noteq> []" "\<not> has_surrogate url"
    and "fst (read_user_info rt (PDict ev)) = Inr user_info"
    and "map_of ev ''body'' = Some (PStr s)" "json_loads rt s = Inr (PDict inbound)"
    and "map_of inbound ''message'' = Some (PStr message)"
    and "message \<noteq> []" "\<not> has_surrogate message"
    and "map_of inbound ''conversationHistory'' = None \<and> history = []
         \<or> map_of inbound ''conversationHistory'' = Some (PList history)"
    and "urlopen rt (fastapi_request url
           (json_dumps rt (request_data (PStr message) (PList history))))
         = Returned 200 (Inr raw)"
    and "decode_utf8 rt raw = Inr response_body"
    and "json_loads rt response_body = Inr (PDict reply)"
    and "map_of reply ''generated_text'' = Some (PStr x)" "x \<noteq> []"
  shows "fst (lambda_handler rt (PDict ev) ctx w) =
     Inr \<lparr>statusCode = 200, headers = fixed_headers,
          body = json_dumps rt (PDict
            [(''success'', PBool True),
             (''response'', PStr x),
             (''conversationHistory'',
              PList (history @
                [PDict [(''role'', PStr ''user''), (''content'', PStr message)],
                 PDict [(''role'', PStr ''assistant''), (''content'', PStr x)]]))])\<rparr>"
proof -
  from assms(11) have "(case map_of inbound ''conversationHistory'' of
      None \<Rightarrow> PList [] | Some h \<Rightarrow> h) = PList history"
    by auto
  with parse_body_dict [OF assms(6-8)]
  have parsed: "parse_body rt (PDict ev) = Inr (PStr message, PList history)"
    by simp
  have "fst (handler_try rt (Some url) (PDict ev)) =
     Inr \<lparr>statusCode = 200, headers = fixed_headers,
          body = json_dumps rt (PDict
            [(''success'', PBool True),
             (''response'', PStr x),
             (''conversationHistory'',
              PList (history @
                [PDict [(''role'', PStr ''user''), (''content'', PStr message)],
                 PDict [(''role'', PStr ''assistant''), (''content'', PStr x)]]))])\<rparr>"
    using assms(10,16)
    by (intro handler_success [OF assms(1,3,4,5) parsed _ assms(12-15)]) simp_all
  with assms(2) show ?thesis
    by (intro returned_gives_200) simp
qed

theorem reply_relayed_witness:
  "conforming (example_runtime (Returned 200 (Inr reply_X)))
   \<and> fst (read_user_info (example_runtime (Returned 200 (Inr reply_X)))
       (PDict [(''body'', PStr body_hello)])) = Inr PNone
   \<and> fst (lambda_handler (example_runtime (Returned 200 (Inr reply_X)))
       (PDict [(''body'', PStr body_hello)]) ()
       (module_loaded (example_runtime (Returned 200 (Inr reply_X)))))
     = Inr \<lparr>statusCode = 200, headers = fixed_headers,
        body = example_dumps (PDict
          [(''success'', PBool True),
           (''response'', PStr ''X''),
           (''conversationHistory'',
            PList [PDict [(''role'', PStr ''user''), (''content'', PStr ''hello'')],
                   PDict [(''role'', PStr ''assistant''), (''content'', PStr ''X'')]])])\<rparr>"
proof -
  let ?rt = "example_runtime (Returned 200 (Inr reply_X))"
  have conf: "conforming ?rt"
    by (rule conforming_example) simp
  have user: "fst (read_user_info ?rt (PDict [(''body'', PStr body_hello)])) = Inr PNone"
    by (rule no_user_info) simp
  have "fst (lambda_handler ?rt (PDict [(''body'', PStr body_hello)]) () (module_loaded ?rt))
     = Inr \<lparr>statusCode = 200, headers = fixed_headers,
        body = json_dumps ?rt (PDict
          [(''success'', PBool True),
           (''response'', PStr ''X''),
           (''conversationHistory'',
            PList ([] @
              [PDict [(''role'', PStr ''user''), (''content'', PStr ''hello'')],
               PDict [(''role'', PStr ''assistant''), (''content'', PStr ''X'')]]))])\<rparr>"
  proof (rule reply_relayed [OF conf _ example_url_ok user, where s = body_hello
        and inbound = "[(''message'', PStr ''hello'')]"
        and raw = reply_X and response_body = reply_X
        and reply = "[(''generated_text'', PStr ''X'')]"])
    show "json_loads ?rt body_hello = Inr (PDict [(''message'', PStr ''hello'')])"
      by (simp add: example_loads_def example_texts)
    show "decode_utf8 ?rt reply_X = Inr reply_X"
      by (simp add: example_decode_ascii reply_X_def is_ascii_Char)
    show "json_loads ?rt reply_X = Inr (PDict [(''generated_text'', PStr ''X'')])"
      by (simp add: example_loads_def example_texts)
    show "\<not> has_surrogate ''hello''"
      by (simp add: surrogate_start_def)
  qed simp_all
  with conf user show ?thesis
    by simp
qed

text \<open>
  Without the condition on \<open>conversationHistory\<close> the statement fails. The body of this
  event parses as a JSON object with the message \<open>hello\<close> and with
  \<open>conversationHistory\<close> \<^verbatim>\<open>null\<close>, and the endpoint answers with status 200 and
  \<open>generated_text\<close> \<open>X\<close>: \<^verbatim>\<open>conversation_history.copy()\<close> raises on \<^verbatim>\<open>None\<close>,
  and the handler returns the error envelope.
\<close>

theorem reply_relayed_counterexample:
  "json_loads (example_runtime (Returned 200 (Inr reply_X))) body_null_history
     = Inr (PDict [(''message'', PStr ''hello''), (''conversationHistory'', PNone)])
   \<and> json_loads (example_runtime (Returned 200 (Inr reply_X))) reply_X
     = Inr (PDict [(''generated_text'', PStr ''X'')])
   \<and> fst (lambda_handler (example_runtime (Returned 200 (Inr reply_X)))
       (PDict [(''body'', PStr body_null_history)]) ()
       (module_loaded (example_runtime (Returned 200 (Inr reply_X)))))
     = Inr \<lparr>statusCode = 500, headers = fixed_headers,
        body = example_dumps (PDict
          [(''success'', PBool False),
           (''error'', PStr ([CHR 0x27] @ ''NoneType'' @ [CHR 0x27]
              @ '' object has no attribute '' @ [CHR 0x27] @ ''copy'' @ [CHR 0x27]))])\<rparr>"
proof -
  let ?rt = "example_runtime (Returned 200 (Inr reply_X))"
  let ?event = "PDict [(''body'', PStr body_null_history)]"
  have conf: "conforming ?rt"
    by (rule conforming_example) simp
  have inbound: "json_loads ?rt body_null_history
     = Inr (PDict [(''message'', PStr ''hello''), (''conversationHistory'', PNone)])"
    by (simp add: example_loads_def example_texts)
  have reply: "json_loads ?rt reply_X = Inr (PDict [(''generated_text'', PStr ''X'')])"
    by (simp add: example_loads_def example_texts)
  have user: "fst (read_user_info ?rt ?event) = Inr PNone"
    by (rule no_user_info) simp
  have parsed: "parse_body ?rt ?event = Inr (PStr ''hello'', PNone)"
    using inbound by (simp add: parse_body_def)
  have printable: "\<not> has_surrogate (py_str ?rt (PStr ''hello''))"
    by (simp add: surrogate_start_def)
  have decoded: "decode_utf8 ?rt reply_X = Inr reply_X"
    by (simp add: example_decode_ascii reply_X_def is_ascii_Char)
  have "fst (read_response ?rt (PStr ''hello'') PNone (Inr reply_X))
      = Inl (no_attribute PNone ''copy'')"
    by (rule read_response_copy_raises [OF conf decoded reply, where g = "PStr ''X''"])
       simp_all
  with call_fastapi_returned_200 [OF conf example_url_ok(2),
      of "PStr ''hello''" PNone "Inr reply_X"]
  have "fst (call_fastapi ?rt example_url (PStr ''hello'') PNone)
      = Inl (no_attribute PNone ''copy'')"
    by simp
  with handler_try_reaches_call [OF conf example_url_ok(1) user parsed printable]
  have raised: "fst (handler_try ?rt (FASTAPI_ENDPOINT_URL (module_loaded ?rt)) ?event)
      = Inl (no_attribute PNone ''copy'')"
    by simp
  have "catchable (no_attribute PNone ''copy'')"
    by (simp add: catchable_no_attribute is_ascii_Char)
  from raised_gives_500 [OF raised this, of "()"] inbound reply show ?thesis
    by (simp add: no_attribute_def quoted_def apostrophe_def)
qed

section \<open>The history returned\<close>

text \<open>
  C2, amended. The runtime is conforming, the endpoint URL is set and what is printed
  before the call holds no lone surrogate, and reading the identity claims raises
  nothing. The body of the event parses as a JSON object with a \<open>message\<close> and with a
  \<open>conversationHistory\<close> that is absent (taken as empty) or a list \<open>history\<close>; the
  endpoint answers with status 200 and a JSON object \<open>reply\<close> whose \<open>generated_text\<close>
  is a true value \<open>g\<close>. Then the history in the returned body is \<open>history\<close>, in its
  order, followed by \<open>{role: user, content: message}\<close> and by
  \<open>{role: assistant, content: g}\<close>. Nothing else of \<open>reply\<close> is in it: a
  \<open>conversationHistory\<close> in the endpoint's answer is not used.
\<close>

theorem history_appended:
  assumes "conforming rt"
    and "FASTAPI_ENDPOINT_URL w = Some url" "url \<noteq> []" "\<not> has_surrogate url"
    and "fst (read_user_info rt (PDict ev)) = Inr user_info"
    and "map_of ev ''body'' = Some (PStr s)" "json_loads rt s = Inr (PDict inbound)"
    and "map_of inbound ''message'' = Some message"
    and "\<not> has_surrogate (py_str rt message)"
    and "map_of inbound ''conversationHistory'' = None \<and> history = []
         \<or> map_of inbound ''conversationHistory'' = Some (PList history)"
    and "urlopen rt (fastapi_request url
           (json_dumps rt (request_data message (PList history))))
         = Returned 200 (Inr raw)"
    and "decode_utf8 rt raw = Inr response_body"
    and "json_loads rt response_body = Inr (PDict reply)"
    and "map_of reply ''generated_text'' = Some g" "truthy g"
  shows "fst (lambda_handler rt (PDict ev) ctx w) =
     Inr \<lparr>statusCode = 200, headers = fixed_headers,
          body = json_dumps rt (PDict
            [(''success'', PBool True),
             (''response'', g),
             (''conversationHistory'',
              PList (history @
                [PDict [(''role'', PStr ''user''), (''content'', message)],
                 PDict [(''role'', PStr ''assistant''), (''content'', g)]]))])\<rparr>"
proof -
  from assms(10) have "(case map_of inbound ''conversationHistory'' of
      None \<Rightarrow> PList [] | Some h \<Rightarrow> h) = PList history"
    by auto
  with parse_body_dict [OF assms(6-8)]
  have parsed: "parse_body rt (PDict ev) = Inr (message, PList history)"
    by simp
  from handler_success [OF assms(1,3,4,5) parsed assms(9,11-15)] assms(2) show ?thesis
    by (intro returned_gives_200) simp
qed

theorem history_appended_witness:
  "json_loads (example_runtime (Returned 200 (Inr reply_ok))) body_there
     = Inr (PDict [(''message'', PStr ''there''),
                   (''conversationHistory'',
                    PList [PDict [(''role'', PStr ''user''), (''content'', PStr ''hi'')]])])
   \<and> json_loads (example_runtime (Returned 200 (Inr reply_ok))) reply_ok
     = Inr (PDict [(''generated_text'', PStr ''ok''), (''conversationHistory'', PList [])])
   \<and> fst (lambda_handler (example_runtime (Returned 200 (Inr reply_ok)))
       (PDict [(''body'', PStr body_there)]) ()
       (module_loaded (example_runtime (Returned 200 (Inr reply_ok)))))
     = Inr \<lparr>statusCode = 200, headers = fixed_headers,
        body = example_dumps (PDict
          [(''success'', PBool True),
           (''response'', PStr ''ok''),
           (''conversationHistory'',
            PList [PDict [(''role'', PStr ''user''), (''content'', PStr ''hi'')],
                   PDict [(''role'', PStr ''user''), (''content'', PStr ''there'')],
                   PDict [(''role'', PStr ''assistant''), (''content'', PStr ''ok'')]])])\<rparr>"
proof -
  let ?rt = "example_runtime (Returned 200 (Inr reply_ok))"
  let ?event = "PDict [(''body'', PStr body_there)]"
  have conf: "conforming ?rt"
    by (rule conforming_example) simp
  have user: "fst (read_user_info ?rt ?event) = Inr PNone"
    by (rule no_user_info) simp
  have inbound: "json_loads ?rt body_there
     = Inr (PDict [(''message'', PStr ''there''),
                   (''conversationHistory'',
                    PList [PDict [(''role'', PStr ''user''), (''content'', PStr ''hi'')]])])"
    by (simp add: example_loads_def example_texts)
  have reply: "json_loads ?rt reply_ok
     = Inr (PDict [(''generated_text'', PStr ''ok''), (''conversationHistory'', PList [])])"
    by (simp add: example_loads_def example_texts)
  have decoded: "decode_utf8 ?rt reply_ok = Inr reply_ok"
    by (simp add: example_decode_ascii reply_ok_def is_ascii_Char)
  have "fst (lambda_handler ?rt ?event () (module_loaded ?rt))
     = Inr \<lparr>statusCode = 200, headers = fixed_headers,
        body = json_dumps ?rt (PDict
          [(''success'', PBool True),
           (''response'', PStr ''ok''),
           (''conversationHistory'',
            PList ([PDict [(''role'', PStr ''user''), (''content'', PStr ''hi'')]] @
              [PDict [(''role'', PStr ''user''), (''content'', PStr ''there'')],
               PDict [(''role'', PStr ''assistant''), (''content'', PStr ''ok'')]]))])\<rparr>"
    by (rule history_appended [OF conf _ example_url_ok user _ inbound _ _ _ _ decoded reply])
       (simp_all add: surrogate_start_def)
  with inbound reply show ?thesis
    by simp
qed

text \<open>
  Without the condition on \<open>conversationHistory\<close> the statement fails. The inbound
  \<open>conversationHistory\<close> of this event is the string \<open>none\<close>, and the endpoint answers
  with status 200 and \<open>generated_text\<close> \<open>X\<close>: a str has no \<^verbatim>\<open>copy\<close>, and the handler
  returns the error envelope, which has no history.
\<close>

theorem history_appended_counterexample:
  "json_loads (example_runtime (Returned 200 (Inr reply_X))) body_text_history
     = Inr (PDict [(''message'', PStr ''hello''), (''conversationHistory'', PStr ''none'')])
   \<and> json_loads (example_runtime (Returned 200 (Inr reply_X))) reply_X
     = Inr (PDict [(''generated_text'', PStr ''X'')])
   \<and> fst (lambda_handler (example_runtime (Returned 200 (Inr reply_X)))
       (PDict [(''body'', PStr body_text_history)]) ()
       (module_loaded (example_runtime (Returned 200 (Inr reply_X)))))
     = Inr \<lparr>statusCode = 500, headers = fixed_headers,
        body = example_dumps (PDict
          [(''success'', PBool False),
           (''error'', PStr ([CHR 0x27] @ ''str'' @ [CHR 0x27]
              @ '' object has no attribute '' @ [CHR 0x27] @ ''copy'' @ [CHR 0x27]))])\<rparr>"
proof -
  let ?rt = "example_runtime (Returned 200 (Inr reply_X))"
  let ?event = "PDict [(''body'', PStr body_text_history)]"
  have conf: "conforming ?rt"
    by (rule conforming_example) simp
  have inbound: "json_loads ?rt body_text_history
     = Inr (PDict [(''message'', PStr ''hello''), (''conversationHistory'', PStr ''none'')])"
    by (simp add: example_loads_def example_texts)
  have reply: "json_loads ?rt reply_X = Inr (PDict [(''generated_text'', PStr ''X'')])"
    by (simp add: example_loads_def example_texts)
  have user: "fst (read_user_info ?rt ?event) = Inr PNone"
    by (rule no_user_info) simp
  have parsed: "parse_body ?rt ?event = Inr (PStr ''hello'', PStr ''none'')"
    using inbound by (simp add: parse_body_def)
  have printable: "\<not> has_surrogate (py_str ?rt (PStr ''hello''))"
    by (simp add: surrogate_start_def)
  have decoded: "decode_utf8 ?rt reply_X = Inr reply_X"
    by (simp add: example_decode_ascii reply_X_def is_ascii_Char)
  have "fst (read_response ?rt (PStr ''hello'') (PStr ''none'') (Inr reply_X))
      = Inl (no_attribute (PStr ''none'') ''copy'')"
    by (rule read_response_copy_raises [OF conf decoded reply, where g = "PStr ''X''"])
       simp_all
  with call_fastapi_returned_200 [OF conf example_url_ok(2),
      of "PStr ''hello''" "PStr ''none''" "Inr reply_X"]
  have "fst (call_fastapi ?rt example_url (PStr ''hello'') (PStr ''none''))
      = Inl (no_attribute (PStr ''none'') ''copy'')"
    by simp
  with handler_try_reaches_call [OF conf example_url_ok(1) user parsed printable]
  have raised: "fst (handler_try ?rt (FASTAPI_ENDPOINT_URL (module_loaded ?rt)) ?event)
      = Inl (no_attribute (PStr ''none'') ''copy'')"
    by simp
  have "catchable (no_attribute (PStr ''none'') ''copy'')"
    by (simp add: catchable_no_attribute is_ascii_Char)
  from raised_gives_500 [OF raised this, of "()"] inbound reply show ?thesis
    by (simp add: no_attribute_def quoted_def apostrophe_def)
qed

section \<open>No generated text\<close>

text \<open>
  C6, amended. The runtime is conforming and the handler has sent its request: the URL
  is set, reading the identity claims and parsing the body raised nothing, and what is
  printed on the way holds no lone surrogate. The endpoint answers with status 200 and
  a JSON object that has no \<open>generated_text\<close>, or has the empty string there. Then the
  handler returns the error envelope of status 500, and the error text says that no
  generated text was received.
\<close>

theorem no_generated_text:
  assumes "conforming rt"
    and "FASTAPI_ENDPOINT_URL w = Some url" "url \<noteq> []" "\<not> has_surrogate url"
    and "fst (read_user_info rt event) = Inr user_info"
    and "parse_body rt event = Inr (message, conversation_history)"
    and "\<not> has_surrogate (py_str rt message)"
    and "urlopen rt (fastapi_request url
           (json_dumps rt (request_data message conversation_history)))
         = Returned 200 (Inr raw)"
    and "decode_utf8 rt raw = Inr response_body"
    and "json_loads rt response_body = Inr (PDict reply)"
    and "map_of reply ''generated_text'' = None
         \<or> map_of reply ''generated_text'' = Some (PStr [])"
  shows "fst (lambda_handler rt event ctx w) =
     Inr \<lparr>statusCode = 500, headers = fixed_headers,
          body = json_dumps rt (PDict
            [(''success'', PBool False),
             (''error'',
              PStr ''No generated_text content received from FastAPI endpoint.'')])\<rparr>"
proof -
  let ?error = "Exception ''No generated_text content received from FastAPI endpoint.''"
  from assms(11) have "\<not> truthy
      (case map_of reply ''generated_text'' of None \<Rightarrow> PNone | Some x \<Rightarrow> x)"
    by auto
  from read_response_no_text [OF assms(1,9,10) this]
    call_fastapi_returned_200 [OF assms(1,4,8)]
  have "fst (call_fastapi rt url message conversation_history) = Inl ?error"
    by simp
  with handler_try_reaches_call [OF assms(1,3,5,6,7)] assms(2)
  have "fst (handler_try rt (FASTAPI_ENDPOINT_URL w) event) = Inl ?error"
    by simp
  from raised_gives_500 [OF this catchable_no_text, of ctx] show ?thesis
    by simp
qed

theorem no_generated_text_witness:
  "parse_body (example_runtime (Returned 200 (Inr empty_object)))
     (PDict [(''body'', PStr body_hello)]) = Inr (PStr ''hello'', PList [])
   \<and> json_loads (example_runtime (Returned 200 (Inr empty_object))) empty_object
     = Inr (PDict [])
   \<and> fst (lambda_handler (example_runtime (Returned 200 (Inr empty_object)))
       (PDict [(''body'', PStr body_hello)]) ()
       (module_loaded (example_runtime (Returned 200 (Inr empty_object)))))
     = Inr \<lparr>statusCode = 500, headers = fixed_headers,
        body = example_dumps (PDict
          [(''success'', PBool False),
           (''error'',
            PStr ''No generated_text content received from FastAPI endpoint.'')])\<rparr>"
proof -
  let ?rt = "example_runtime (Returned 200 (Inr empty_object))"
  let ?event = "PDict [(''body'', PStr body_hello)]"
  have conf: "conforming ?rt"
    by (rule conforming_example) simp
  have user: "fst (read_user_info ?rt ?event) = Inr PNone"
    by (rule no_user_info) simp
  have parsed: "parse_body ?rt ?event = Inr (PStr ''hello'', PList [])"
    by (simp add: parse_body_def example_loads_def example_texts)
  have decoded: "decode_utf8 ?rt empty_object = Inr empty_object"
    by (simp add: example_decode_ascii empty_object_def is_ascii_Char)
  have reply: "json_loads ?rt empty_object = Inr (PDict [])"
    by (simp add: example_loads_def example_texts)
  have "fst (lambda_handler ?rt ?event () (module_loaded ?rt))
     = Inr \<lparr>statusCode = 500, headers = fixed_headers,
        body = json_dumps ?rt (PDict
          [(''success'', PBool False),
           (''error'',
            PStr ''No generated_text content received from FastAPI endpoint.'')])\<rparr>"
    by (rule no_generated_text [OF conf _ example_url_ok user parsed _ _ decoded reply])
       (simp_all add: surrogate_start_def)
  with parsed reply show ?thesis
    by simp
qed

text \<open>
  Without the condition that the answer is a JSON object the statement fails. The
  endpoint answers with status 200 and the JSON text \<^verbatim>\<open>[]\<close>, a body with no
  \<open>generated_text\<close> field: \<^verbatim>\<open>api_response.get\<close> of line 83 raises on a list, and the
  error text of the envelope is that of the \<^verbatim>\<open>AttributeError\<close>.
\<close>

theorem no_generated_text_counterexample:
  "json_loads (example_runtime (Returned 200 (Inr empty_array))) empty_array
     = Inr (PList [])
   \<and> fst (lambda_handler (example_runtime (Returned 200 (Inr empty_array)))
       (PDict [(''body'', PStr body_hello)]) ()
       (module_loaded (example_runtime (Returned 200 (Inr empty_array)))))
     = Inr \<lparr>statusCode = 500, headers = fixed_headers,
        body = example_dumps (PDict
          [(''success'', PBool False),
           (''error'', PStr ([CHR 0x27] @ ''list'' @ [CHR 0x27]
              @ '' object has no attribute '' @ [CHR 0x27] @ ''get'' @ [CHR 0x27]))])\<rparr>"
proof -
  let ?rt = "example_runtime (Returned 200 (Inr empty_array))"
  let ?event = "PDict [(''body'', PStr body_hello)]"
  have conf: "conforming ?rt"
    by (rule conforming_example) simp
  have user: "fst (read_user_info ?rt ?event) = Inr PNone"
    by (rule no_user_info) simp
  have parsed: "parse_body ?rt ?event = Inr (PStr ''hello'', PList [])"
    by (simp add: parse_body_def example_loads_def example_texts)
  have printable: "\<not> has_surrogate (py_str ?rt (PStr ''hello''))"
    by (simp add: surrogate_start_def)
  have decoded: "decode_utf8 ?rt empty_array = Inr empty_array"
    by (simp add: example_decode_ascii empty_array_def is_ascii_Char)
  have reply: "json_loads ?rt empty_array = Inr (PList [])"
    by (simp add: example_loads_def example_texts)
  have "fst (read_response ?rt (PStr ''hello'') (PList []) (Inr empty_array))
      = Inl (no_attribute (PList []) ''get'')"
    by (rule read_response_get_raises [OF conf decoded reply]) simp
  with call_fastapi_returned_200 [OF conf example_url_ok(2),
      of "PStr ''hello''" "PList []" "Inr empty_array"]
  have "fst (call_fastapi ?rt example_url (PStr ''hello'') (PList []))
      = Inl (no_attribute (PList []) ''get'')"
    by simp
  with handler_try_reaches_call [OF conf example_url_ok(1) user parsed printable]
  have raised: "fst (handler_try ?rt (FASTAPI_ENDPOINT_URL (module_loaded ?rt)) ?event)
      = Inl (no_attribute (PList []) ''get'')"
    by simp
  have "catchable (no_attribute (PList []) ''get'')"
    by (simp add: catchable_no_attribute is_ascii_Char)
  from raised_gives_500 [OF raised this, of "()"] reply show ?thesis
    by (simp add: no_attribute_def quoted_def apostrophe_def)
qed

section \<open>The status of the endpoint in the error text\<close>

lemma call_fastapi_http_error_undecodable:
  assumes "conforming rt" and "\<not> has_surrogate url"
    and "urlopen rt (fastapi_request url
           (json_dumps rt (request_data message conversation_history)))
         = RaisedHTTPError code reason True (Inr raw)"
    and "decode_utf8 rt raw = Inl e"
  shows "fst (call_fastapi rt url message conversation_history) = Inl e"
  using assms
  by (simp add: call_fastapi_def encode_utf8_def fst_print_then text_simps
        conforming_json_dumps del: has_surrogate.simps)

text \<open>
  C7. The claim: when the endpoint answers with status 404, the handler returns the error
  envelope with an error text that contains \<open>404\<close>. Here \<^verbatim>\<open>urlopen\<close> raises
  \<^verbatim>\<open>HTTPError\<close> with code 404 and reason \<open>Not Found\<close>, and the body of the answer is
  the one byte \<^verbatim>\<open>0xff\<close>. Line 98 decodes that body for the log before line 100 builds
  the text with the code; the decoding raises, and the error text of the envelope is
  that of the \<^verbatim>\<open>UnicodeDecodeError\<close>, in which \<open>404\<close> does not occur.
\<close>

theorem http_404_undecodable_body:
  "fst (lambda_handler
     (example_runtime (RaisedHTTPError 404 ''Not Found'' True (Inr [CHR 0xFF])))
     (PDict [(''body'', PStr body_hello)]) ()
     (module_loaded
       (example_runtime (RaisedHTTPError 404 ''Not Found'' True (Inr [CHR 0xFF])))))
   = Inr \<lparr>statusCode = 500, headers = fixed_headers,
      body = example_dumps (PDict
        [(''success'', PBool False),
         (''error'', PStr undecodable)])\<rparr>
   \<and> \<not> sublist ''404'' undecodable"
proof -
  let ?rt = "example_runtime (RaisedHTTPError 404 ''Not Found'' True (Inr [CHR 0xFF]))"
  let ?event = "PDict [(''body'', PStr body_hello)]"
  have conf: "conforming ?rt"
    by (rule conforming_example) (simp add: surrogate_start_def)
  have user: "fst (read_user_info ?rt ?event) = Inr PNone"
    by (rule no_user_info) simp
  have parsed: "parse_body ?rt ?event = Inr (PStr ''hello'', PList [])"
    by (simp add: parse_body_def example_loads_def example_texts)
  have printable: "\<not> has_surrogate (py_str ?rt (PStr ''hello''))"
    by (simp add: surrogate_start_def)
  have "decode_utf8 ?rt [CHR 0xFF] = Inl (UnicodeDecodeError undecodable)"
    by (simp add: example_decode_def is_ascii_Char)
  with call_fastapi_http_error_undecodable [OF conf example_url_ok(2),
      of "PStr ''hello''" "PList []" 404 "''Not Found''" "[CHR 0xFF]"]
  have "fst (call_fastapi ?rt example_url (PStr ''hello'') (PList []))
      = Inl (UnicodeDecodeError undecodable)"
    by simp
  with handler_try_reaches_call [OF conf example_url_ok(1) user parsed printable]
  have raised: "fst (handler_try ?rt (FASTAPI_ENDPOINT_URL (module_loaded ?rt)) ?event)
      = Inl (UnicodeDecodeError undecodable)"
    by simp
  have "catchable (UnicodeDecodeError undecodable)"
    by (simp add: catchable_ascii undecodable_def ascii_quoted is_ascii_Char)
  from raised_gives_500 [OF raised this, of "()"]
  have "fst (lambda_handler ?rt ?event () (module_loaded ?rt))
     = Inr \<lparr>statusCode = 500, headers = fixed_headers,
        body = example_dumps (PDict
          [(''success'', PBool False), (''error'', PStr undecodable)])\<rparr>"
    by simp
  moreover have "\<not> sublist ''404'' undecodable"
    by (simp add: undecodable_def quoted_def apostrophe_def sublist_Cons_right)
  ultimately show ?thesis ..
qed

section \<open>The identity claims\<close>

text \<open>
  C3. The claim: two events that differ only in the content or the presence of the
  claims under \<open>requestContext.authorizer\<close> get the same envelope. The two events here
  have the same body and the same \<open>requestContext\<close> with an \<open>authorizer\<close>; the first
  carries claims, the second carries none. The guard of line 42 asks for
  \<open>requestContext\<close> and for \<open>authorizer\<close> and line 43 then subscripts \<open>claims\<close>: for
  the second event that raises \<^verbatim>\<open>KeyError\<close>, and the handler returns the error envelope
  where the first event gets the answer of the endpoint.
\<close>

theorem claims_absent_other_envelope:
  "fst (lambda_handler (example_runtime (Returned 200 (Inr reply_X)))
     (PDict [(''requestContext'',
              PDict [(''authorizer'',
                      PDict [(''claims'', PDict [(''email'', PStr ''a@example.com'')])])]),
             (''body'', PStr body_hello)]) ()
     (module_loaded (example_runtime (Returned 200 (Inr reply_X)))))
   = Inr \<lparr>statusCode = 200, headers = fixed_headers,
      body = example_dumps (PDict
        [(''success'', PBool True),
         (''response'', PStr ''X''),
         (''conversationHistory'',
          PList [PDict [(''role'', PStr ''user''), (''content'', PStr ''hello'')],
                 PDict [(''role'', PStr ''assistant''), (''content'', PStr ''X'')]])])\<rparr>
   \<and> fst (lambda_handler (example_runtime (Returned 200 (Inr reply_X)))
     (PDict [(''requestContext'', PDict [(''authorizer'', PDict [])]),
             (''body'', PStr body_hello)]) ()
     (module_loaded (example_runtime (Returned 200 (Inr reply_X)))))
   = Inr \<lparr>statusCode = 500, headers = fixed_headers,
      body = example_dumps (PDict
        [(''success'', PBool False),
         (''error'', PStr ([CHR 0x27] @ ''claims'' @ [CHR 0x27]))])\<rparr>"
proof -
  let ?rt = "example_runtime (Returned 200 (Inr reply_X))"
  let ?with = "PDict [(''requestContext'',
              PDict [(''authorizer'',
                      PDict [(''claims'', PDict [(''email'', PStr ''a@example.com'')])])]),
             (''body'', PStr body_hello)]"
  let ?without = "PDict [(''requestContext'', PDict [(''authorizer'', PDict [])]),
             (''body'', PStr body_hello)]"
  have conf: "conforming ?rt"
    by (rule conforming_example) simp
  have user: "fst (read_user_info ?rt ?with) = Inr (PDict [(''email'', PStr ''a@example.com'')])"
    by (simp add: read_user_info_def fst_print_then surrogate_start_def)
  have parsed: "parse_body ?rt ?with = Inr (PStr ''hello'', PList [])"
    by (simp add: parse_body_def example_loads_def example_texts)
  have printable: "\<not> has_surrogate (py_str ?rt (PStr ''hello''))"
    by (simp add: surrogate_start_def)
  have decoded: "decode_utf8 ?rt reply_X = Inr reply_X"
    by (simp add: example_decode_ascii reply_X_def is_ascii_Char)
  have reply: "json_loads ?rt reply_X = Inr (PDict [(''generated_text'', PStr ''X'')])"
    by (simp add: example_loads_def example_texts)
  have "fst (handler_try ?rt (Some example_url) ?with)
     = Inr \<lparr>statusCode = 200, headers = fixed_headers,
        body = json_dumps ?rt (PDict
          [(''success'', PBool True),
           (''response'', PStr ''X''),
           (''conversationHistory'',
            PList ([] @
              [PDict [(''role'', PStr ''user''), (''content'', PStr ''hello'')],
               PDict [(''role'', PStr ''assistant''), (''content'', PStr ''X'')]]))])\<rparr>"
    by (rule handler_success [OF conf example_url_ok user parsed printable _ decoded reply])
       simp_all
  then have first: "fst (lambda_handler ?rt ?with () (module_loaded ?rt))
     = Inr \<lparr>statusCode = 200, headers = fixed_headers,
        body = example_dumps (PDict
          [(''success'', PBool True),
           (''response'', PStr ''X''),
           (''conversationHistory'',
            PList [PDict [(''role'', PStr ''user''), (''content'', PStr ''hello'')],
                   PDict [(''role'', PStr ''assistant''), (''content'', PStr ''X'')]])])\<rparr>"
    using returned_gives_200 [of ?rt "module_loaded ?rt" ?with _ "()"] by simp
  have "fst (read_user_info ?rt ?without) = Inl (KeyError ''claims'')"
    by (simp add: read_user_info_def)
  from handler_try_user_info_raises [OF conf example_url_ok(1) this]
  have raised: "fst (handler_try ?rt (FASTAPI_ENDPOINT_URL (module_loaded ?rt)) ?without)
      = Inl (KeyError ''claims'')"
    by simp
  have "catchable (KeyError ''claims'')"
    by (simp add: catchable_ascii ascii_quoted is_ascii_Char)
  from raised_gives_500 [OF raised this, of "()"]
  have "fst (lambda_handler ?rt ?without () (module_loaded ?rt))
     = Inr \<lparr>statusCode = 500, headers = fixed_headers,
        body = example_dumps (PDict
          [(''success'', PBool False),
           (''error'', PStr ([CHR 0x27] @ ''claims'' @ [CHR 0x27]))])\<rparr>"
    by (simp add: quoted_def apostrophe_def)
  with first show ?thesis ..
qed

section \<open>A message that standard output cannot encode\<close>

text \<open>
  The message of this event is the one character \<^verbatim>\<open>U+D800\<close>. The \<^verbatim>\<open>print\<close> of line 51
  raises \<^verbatim>\<open>UnicodeEncodeError\<close>, no request is sent, and the handler returns the error
  envelope with the text of that exception.
\<close>

lemma lone_surrogate_message:
  assumes "conforming rt" and "FASTAPI_ENDPOINT_URL w = Some url" and "url \<noteq> []"
    and "map_of ev ''requestContext'' = None"
    and "map_of ev ''body'' = Some (PStr s)"
    and "json_loads rt s = Inr (PDict [(''message'', PStr [CHR 0xED, CHR 0xA0, CHR 0x80])])"
  shows "fst (lambda_handler rt (PDict ev) ctx w) =
     Inr \<lparr>statusCode = 500, headers = fixed_headers,
          body = json_dumps rt (PDict
            [(''success'', PBool False),
             (''error'', PStr ([CHR 0x27] @ ''utf-8'' @ [CHR 0x27]
                @ '' codec can't encode character '' @ [CHR 0x27, CHR 0x5C] @ ''ud800''
                @ [CHR 0x27] @ '' in position 0: surrogates not allowed''))])\<rparr>"
proof -
  let ?message = "PStr [CHR 0xED, CHR 0xA0, CHR 0x80]"
  let ?error = "UnicodeEncodeError (cannot_encode [CHR 0xED, CHR 0xA0, CHR 0x80])"
  have "parse_body rt (PDict ev) = Inr (?message, PList [])"
    using assms(5,6) by (simp add: parse_body_def)
  moreover have "fst (py_print [''Processing message:'', py_str rt ?message]) = Inl ?error"
    by (simp add: py_print_def fst_and_then fst_stdout_write surrogate_start_def)
  ultimately have "fst (handler_try rt (FASTAPI_ENDPOINT_URL w) (PDict ev)) = Inl ?error"
    using assms(1-4)
    by (simp add: handler_try_def fst_print_then no_user_info fst_and_then_Inr
          fst_and_then_Inl text_simps conforming_json_dumps del: has_surrogate.simps)
  from raised_gives_500 [OF this catchable_UnicodeEncodeError, of ctx] show ?thesis
    by (simp add: cannot_encode_def surrogate_start_def continuation_def hex4_def
          digits.simps quoted_def apostrophe_def)
qed

section \<open>What the handler does not catch\<close>

text \<open>
  The clause of line 123 catches \<^verbatim>\<open>Exception\<close> and no more: what the \<^verbatim>\<open>try\<close> body
  raises outside that class reaches the caller. And when the text of the error caught
  holds a lone surrogate, the \<^verbatim>\<open>print\<close> of line 124 raises inside the clause, and that
  \<^verbatim>\<open>UnicodeEncodeError\<close> reaches the caller. Neither happens in a conforming runtime.
\<close>

lemma not_an_Exception_reaches_caller:
  assumes "fst (handler_try rt (FASTAPI_ENDPOINT_URL w) event) = Inl e"
    and "\<not> is_Exception e"
  shows "fst (lambda_handler rt event ctx w) = Inl e"
  using assms by (simp add: fst_lambda_handler fst_try_except)

lemma unprintable_error_reaches_caller:
  assumes "fst (handler_try rt (FASTAPI_ENDPOINT_URL w) event) = Inl e"
    and "is_Exception e" and "has_surrogate (str_exception e)"
  shows "fst (lambda_handler rt event ctx w) =
     Inl (UnicodeEncodeError (cannot_encode (str_exception e)))"
  using assms
  by (simp add: fst_lambda_handler fst_try_except handler_except_def py_print_def
        fst_and_then fst_stdout_write surrogate_start_def)

lemma keyboard_interrupt_reaches_caller:
  "fst (lambda_handler (example_runtime (Raised (NonException ''KeyboardInterrupt'')))
     (PDict [(''body'', PStr body_hello)]) ()
     (module_loaded (example_runtime (Raised (NonException ''KeyboardInterrupt'')))))
   = Inl (NonException ''KeyboardInterrupt'')"
proof -
  let ?rt = "example_runtime (Raised (NonException ''KeyboardInterrupt''))"
  let ?event = "PDict [(''body'', PStr body_hello)]"
  have dumps: "\<not> has_surrogate (json_dumps ?rt v)" for v
    by (simp add: no_surrogate_ascii ascii_example_dumps)
  have parsed: "parse_body ?rt ?event = Inr (PStr ''hello'', PList [])"
    by (simp add: parse_body_def example_loads_def example_texts)
  have "fst (call_fastapi ?rt example_url (PStr ''hello'') (PList []))
      = Inl (NonException ''KeyboardInterrupt'')"
    using example_url_ok(2)
    by (simp add: call_fastapi_def encode_utf8_def fst_print_then text_simps dumps
          del: has_surrogate.simps example_fields(2))
  then have "fst (handler_try ?rt (FASTAPI_ENDPOINT_URL (module_loaded ?rt)) ?event)
      = Inl (NonException ''KeyboardInterrupt'')"
    using parsed example_url_ok(1)
    by (simp add: handler_try_def fst_print_then no_user_info fst_and_then_Inr
          fst_and_then_Inl text_simps dumps
          del: has_surrogate.simps example_fields(2))
  then show ?thesis
    by (simp add: fst_lambda_handler fst_try_except)
qed

end
